theory Spec2Isabelle
  imports Complex_Main "HOL-Library.Multiset"
begin

section \<open>JavaScript strings and values\<close>

text \<open>
  Strings of the backend (\<^verbatim>\<open>src/backend/index.js\<close>) are modelled as \<^typ>\<open>string\<close>;
  the characters are those of the ASCII range, on which \<^verbatim>\<open>toLowerCase\<close>, \<^verbatim>\<open>\s\<close> and
  \<^verbatim>\<open>\d\<close> act as defined here.
\<close>

definition lowerChar :: "char \<Rightarrow> char" where
  "lowerChar c =
     (case map_of (zip ''ABCDEFGHIJKLMNOPQRSTUVWXYZ'' ''abcdefghijklmnopqrstuvwxyz'') c of
        None \<Rightarrow> c
      | Some d \<Rightarrow> d)"

definition toLowerCase :: "string \<Rightarrow> string" where
  "toLowerCase s = map lowerChar s"

definition isDigit :: "char \<Rightarrow> bool" where
  "isDigit c = (c \<in> set ''0123456789'')"

text \<open>The class \<^verbatim>\<open>\s\<close>: tab, line feed, vertical tab, form feed, carriage return, space.\<close>

definition isSpace :: "char \<Rightarrow> bool" where
  "isSpace c = (c \<in> set [CHR 0x09, CHR 0x0A, CHR 0x0B, CHR 0x0C, CHR 0x0D, CHR '' ''])"

definition startsWith :: "string \<Rightarrow> string \<Rightarrow> bool" where
  "startsWith s p = (take (length p) s = p)"

definition endsWith :: "string \<Rightarrow> string \<Rightarrow> bool" where
  "endsWith s p = (length p \<le> length s \<and> drop (length s - length p) s = p)"

text \<open>\<^verbatim>\<open>hay.includes(needle)\<close>: the needle occurs as a contiguous substring.\<close>

fun includes_str :: "string \<Rightarrow> string \<Rightarrow> bool" where
  "includes_str [] needle = (needle = [])"
| "includes_str (h # hay) needle = (startsWith (h # hay) needle \<or> includes_str hay needle)"

text \<open>\<^verbatim>\<open>s.split(c)\<close> for a one-character separator: never empty, keeps empty pieces.\<close>

fun split_str :: "char \<Rightarrow> string \<Rightarrow> string list" where
  "split_str c [] = [[]]"
| "split_str c (x # xs) =
     (if x = c then [] # split_str c xs
      else (case split_str c xs of [] \<Rightarrow> [[x]] | w # ws \<Rightarrow> (x # w) # ws))"

text \<open>Value of a run of decimal digits, most significant first.\<close>

definition digitValue :: "char \<Rightarrow> nat" where
  "digitValue c = (case map_of (zip ''0123456789'' [0, 1, 2, 3, 4, 5, 6, 7, 8, 9]) c of
                     None \<Rightarrow> 0 | Some d \<Rightarrow> d)"

definition parseDigits :: "string \<Rightarrow> nat" where
  "parseDigits ds = foldl (\<lambda>acc c. 10 * acc + digitValue c) 0 ds"

text \<open>
  The JSON values a request body field can hold, as far as the handlers distinguish
  them, and JavaScript's truthiness.
\<close>

datatype js_value = JUndefined | JNull | JBool bool | JNumber int | JString string

fun truthy :: "js_value \<Rightarrow> bool" where
  "truthy JUndefined = False"
| "truthy JNull = False"
| "truthy (JBool b) = b"
| "truthy (JNumber n) = (n \<noteq> 0)"
| "truthy (JString s) = (s \<noteq> [])"

text \<open>
  Numbers of the range arithmetic are integers or \<^verbatim>\<open>NaN\<close> (\<open>None\<close>). A number is written
  into a header in decimal, \<^verbatim>\<open>NaN\<close> as such.
\<close>

definition digitChar :: "nat \<Rightarrow> char" where
  "digitChar d = ''0123456789'' ! (d mod 10)"

function showNat :: "nat \<Rightarrow> string" where
  "showNat n = (if n < 10 then [digitChar n] else showNat (n div 10) @ [digitChar (n mod 10)])"
  by pat_completeness auto
termination
  by (relation "measure id") auto

declare showNat.simps [simp del]

definition showInt :: "int \<Rightarrow> string" where
  "showInt i = (if i < 0 then CHR ''-'' # showNat (nat (- i)) else showNat (nat i))"

definition showNumber :: "int option \<Rightarrow> string" where
  "showNumber v = (case v of None \<Rightarrow> ''NaN'' | Some i \<Rightarrow> showInt i)"

text \<open>\<^verbatim>\<open>`${v}`\<close>: a value written into a template string.\<close>

definition showValue :: "js_value \<Rightarrow> string" where
  "showValue v =
     (case v of
        JUndefined \<Rightarrow> ''undefined''
      | JNull \<Rightarrow> ''null''
      | JBool b \<Rightarrow> (if b then ''true'' else ''false'')
      | JNumber n \<Rightarrow> showInt n
      | JString str \<Rightarrow> str)"

text \<open>What an awaited call does: it returns a value or throws an error with a message.\<close>

datatype 'a outcome = Returns 'a | Throws string

text \<open>\<^verbatim>\<open>xs[i]\<close>: \<^verbatim>\<open>undefined\<close> out of range.\<close>

definition js_index :: "'a list \<Rightarrow> nat \<Rightarrow> 'a option" where
  "js_index xs i = (if i < length xs then Some (xs ! i) else None)"

text \<open>
  \<^verbatim>\<open>[...xs].sort(cmp)\<close>: a stable sort by a comparator that returns a negative
  number, zero or a positive number. For a consistent comparator the result of a
  stable sort is unique, and it is the one computed here by insertion.
\<close>

fun insert_by :: "('a \<Rightarrow> 'a \<Rightarrow> int) \<Rightarrow> 'a \<Rightarrow> 'a list \<Rightarrow> 'a list" where
  "insert_by cmp x [] = [x]"
| "insert_by cmp x (y # ys) = (if cmp x y \<le> 0 then x # y # ys else y # insert_by cmp x ys)"

definition js_sort :: "('a \<Rightarrow> 'a \<Rightarrow> int) \<Rightarrow> 'a list \<Rightarrow> 'a list" where
  "js_sort cmp xs = foldr (insert_by cmp) xs []"

text \<open>A comparator is consistent when it induces a total preorder.\<close>

definition consistent :: "('a \<Rightarrow> 'a \<Rightarrow> int) \<Rightarrow> bool" where
  "consistent cmp \<longleftrightarrow>
     (\<forall>a b. cmp a b \<le> 0 \<or> cmp b a \<le> 0) \<and>
     (\<forall>a b c. cmp a b \<le> 0 \<longrightarrow> cmp b c \<le> 0 \<longrightarrow> cmp a c \<le> 0)"

section \<open>File Selector\<close>

text \<open>A file of a torrent: its name and its content (\<^verbatim>\<open>file.length\<close> is the byte count).\<close>

record torrent_file =
  name :: string
  content :: "nat list"

definition file_length :: "torrent_file \<Rightarrow> nat" where
  "file_length f = length (content f)"

definition audioExtensions :: "string list" where
  "audioExtensions = [''.mp3'', ''.flac'', ''.wav'', ''.m4a'', ''.aac'', ''.ogg'', ''.wma'']"

definition isAudioFile :: "torrent_file \<Rightarrow> bool" where
  "isAudioFile file =
     list_ex (\<lambda>ext. endsWith (toLowerCase (name file)) (toLowerCase ext)) audioExtensions"

text \<open>
  The errors of a stream preparation: no eligible file, a file count other than the
  expected one, and a torrent that could not be loaded (the rejected promise of the
  timeout or of the engine, with its message).
\<close>

datatype stream_error =
    NoAudioFiles
  | FileCountMismatch js_value nat
  | TorrentFailed string

text \<open>
  \<^verbatim>\<open>if (expectedFileCount && audioFiles.length !== expectedFileCount)\<close>: the strict
  inequality holds unless the value is the number equal to the length.
\<close>

definition strictNotEqual :: "nat \<Rightarrow> js_value \<Rightarrow> bool" where
  "strictNotEqual n v = (case v of JNumber k \<Rightarrow> int n \<noteq> k | _ \<Rightarrow> True)"

definition fileCountMismatch :: "js_value \<Rightarrow> torrent_file list \<Rightarrow> bool" where
  "fileCountMismatch expectedFileCount audioFiles =
     (truthy expectedFileCount \<and> strictNotEqual (length audioFiles) expectedFileCount)"

text \<open>\<^verbatim>\<open>x || y\<close> on an optional file: \<^verbatim>\<open>if (!targetFile) targetFile = ...\<close>.\<close>

fun orElse :: "'a option \<Rightarrow> 'a option \<Rightarrow> 'a option" where
  "orElse (Some x) y = Some x"
| "orElse None y = y"

text \<open>First try exact name match.\<close>

definition exactMatch :: "torrent_file list \<Rightarrow> string \<Rightarrow> torrent_file option" where
  "exactMatch audioFiles fileName =
     find (\<lambda>file. toLowerCase (name file) = toLowerCase fileName) audioFiles"

text \<open>If no exact match, try partial name matching.\<close>

definition partialMatch :: "torrent_file list \<Rightarrow> string \<Rightarrow> torrent_file option" where
  "partialMatch audioFiles fileName =
     find (\<lambda>file. includes_str (toLowerCase (name file)) (toLowerCase fileName) \<or>
                  includes_str (toLowerCase fileName) (toLowerCase (name file))) audioFiles"

text \<open>
  \<^verbatim>\<open>fileName.match(/(?:track\s*)?(\d+)/i)\<close>: the digits captured by the leftmost match,
  if there is one. At each position the optional group is tried first, then skipped.
\<close>

fun trackNumberMatch :: "string \<Rightarrow> string option" where
  "trackNumberMatch [] = None"
| "trackNumberMatch (c # cs) =
     (let s = c # cs;
          afterTrack = dropWhile isSpace (drop 5 s)
      in if startsWith (toLowerCase s) ''track'' \<and> takeWhile isDigit afterTrack \<noteq> []
         then Some (takeWhile isDigit afterTrack)
         else if isDigit c then Some (takeWhile isDigit s)
         else trackNumberMatch cs)"

definition sortedAudioFiles ::
  "(string \<Rightarrow> string \<Rightarrow> int) \<Rightarrow> torrent_file list \<Rightarrow> torrent_file list" where
  "sortedAudioFiles localeCompare audioFiles =
     js_sort (\<lambda>a b. localeCompare (name a) (name b)) audioFiles"

text \<open>If still no match, try track number extraction (1-indexed).\<close>

definition byTrackNumber ::
  "(string \<Rightarrow> string \<Rightarrow> int) \<Rightarrow> torrent_file list \<Rightarrow> string \<Rightarrow> torrent_file option" where
  "byTrackNumber localeCompare audioFiles fileName =
     (case trackNumberMatch fileName of
        None \<Rightarrow> None
      | Some digits \<Rightarrow>
          (let trackNumber = parseDigits digits;
               sorted = sortedAudioFiles localeCompare audioFiles
           in if trackNumber > 0 \<and> trackNumber \<le> length sorted
              then js_index sorted (trackNumber - 1)
              else None))"

text \<open>\<^verbatim>\<open>s.replace(/^\d+[\s\-\.]*/, '')\<close>: strip a leading track number and separators.\<close>

definition isSeparator :: "char \<Rightarrow> bool" where
  "isSeparator c = (isSpace c \<or> c = CHR ''-'' \<or> c = CHR ''.'')"

definition stripTrackPrefix :: "string \<Rightarrow> string" where
  "stripTrackPrefix s =
     (if takeWhile isDigit s = [] then s
      else dropWhile isSeparator (dropWhile isDigit s))"

text \<open>If still no match, try fuzzy matching on track names.\<close>

definition fuzzyMatch :: "torrent_file list \<Rightarrow> string \<Rightarrow> torrent_file option" where
  "fuzzyMatch audioFiles fileName =
     (let cleanFileName = toLowerCase (stripTrackPrefix fileName)
      in find (\<lambda>file.
            (let cleanFile = toLowerCase (stripTrackPrefix (name file))
             in includes_str cleanFile cleanFileName \<or> includes_str cleanFileName cleanFile))
          audioFiles)"

text \<open>
  The target file as the handler of \<^verbatim>\<open>POST /api/stream-torrent\<close> selects it in its own
  body (the route of a torrent that was not registered and ready when the request came).
  \<open>fileName\<close> is \<open>None\<close> when the request has none; the empty string is falsy as well.
  The result is \<open>None\<close> where the source is left with \<^verbatim>\<open>undefined\<close>.
\<close>

definition selectFile ::
  "(string \<Rightarrow> string \<Rightarrow> int) \<Rightarrow> torrent_file list \<Rightarrow> string option \<Rightarrow> torrent_file option" where
  "selectFile localeCompare audioFiles fileName =
     (let targetFile =
        (case fileName of
           None \<Rightarrow> None
         | Some fn \<Rightarrow>
             if fn = [] then None
             else orElse (orElse (orElse (exactMatch audioFiles fn)
                                         (partialMatch audioFiles fn))
                                 (byTrackNumber localeCompare audioFiles fn))
                         (fuzzyMatch audioFiles fn))
      in case targetFile of
           Some f \<Rightarrow> Some f
         | None \<Rightarrow> js_index (sortedAudioFiles localeCompare audioFiles) 0)"

text \<open>
  The file-selection part in the body of the \<^verbatim>\<open>POST /api/stream-torrent\<close> handler:
  eligibility filter, the two checks, then the selection with all five stages.
\<close>

definition streamTorrentInline ::
  "(string \<Rightarrow> string \<Rightarrow> int) \<Rightarrow> torrent_file list \<Rightarrow> string option \<Rightarrow> js_value
     \<Rightarrow> stream_error + torrent_file option" where
  "streamTorrentInline localeCompare files fileName expectedFileCount =
     (let audioFiles = filter isAudioFile files
      in if length audioFiles = 0 then Inl NoAudioFiles
         else if fileCountMismatch expectedFileCount audioFiles
         then Inl (FileCountMismatch expectedFileCount (length audioFiles))
         else Inr (selectFile localeCompare audioFiles fileName))"

text \<open>
  \<^verbatim>\<open>processStreamRequest\<close>, the helper for a torrent that is registered and ready
  (``Enhanced track selection logic (same as before)''): the same checks, then exact,
  partial and track-number matching, and the fallback; it has no fuzzy stage.
\<close>

definition processStreamRequest ::
  "(string \<Rightarrow> string \<Rightarrow> int) \<Rightarrow> torrent_file list \<Rightarrow> string option \<Rightarrow> js_value
     \<Rightarrow> stream_error + torrent_file option" where
  "processStreamRequest localeCompare files fileName expectedFileCount =
     (let audioFiles = filter isAudioFile files
      in if length audioFiles = 0 then Inl NoAudioFiles
         else if fileCountMismatch expectedFileCount audioFiles
         then Inl (FileCountMismatch expectedFileCount (length audioFiles))
         else Inr
           (let targetFile =
              (case fileName of
                 None \<Rightarrow> None
               | Some fn \<Rightarrow>
                   if fn = [] then None
                   else orElse (orElse (exactMatch audioFiles fn) (partialMatch audioFiles fn))
                               (byTrackNumber localeCompare audioFiles fn))
            in case targetFile of
                 Some f \<Rightarrow> Some f
               | None \<Rightarrow> js_index (sortedAudioFiles localeCompare audioFiles) 0))"

text \<open>
  A torrent object as the registry \<^verbatim>\<open>activeTorrents\<close> holds it: its files and whether it
  is ready.
\<close>

record swarm_torrent =
  torrentFiles :: "torrent_file list"
  torrentReady :: bool

text \<open>
  The handler of \<^verbatim>\<open>POST /api/stream-torrent\<close> for a request with \<^verbatim>\<open>async: false\<close> and a
  resolved magnet link: its answer as far as the file selection goes, and the registry
  after it. A torrent that is registered and ready is handed to
  \<^verbatim>\<open>processStreamRequest\<close>; a registered torrent that is not ready is used as it is; an
  unknown one is added to the engine, awaited (\<open>loaded\<close> is the outcome: the files of the
  ready torrent, or the error) and stored, and the handler's own body selects the file.
\<close>

definition streamTorrent ::
  "(string \<Rightarrow> string \<Rightarrow> int) \<Rightarrow> (string \<rightharpoonup> swarm_torrent) \<Rightarrow> string
     \<Rightarrow> torrent_file list outcome \<Rightarrow> string option \<Rightarrow> js_value
     \<Rightarrow> (stream_error + torrent_file option) \<times> (string \<rightharpoonup> swarm_torrent)" where
  "streamTorrent localeCompare registry resolvedMagnetLink loaded fileName expectedFileCount =
     (case registry resolvedMagnetLink of
        Some torrent \<Rightarrow>
          if torrentReady torrent
          then (processStreamRequest localeCompare (torrentFiles torrent) fileName
                  expectedFileCount, registry)
          else (streamTorrentInline localeCompare (torrentFiles torrent) fileName
                  expectedFileCount, registry)
      | None \<Rightarrow>
          (case loaded of
             Throws message \<Rightarrow> (Inl (TorrentFailed message), registry)
           | Returns files \<Rightarrow>
               (streamTorrentInline localeCompare files fileName expectedFileCount,
                registry(resolvedMagnetLink \<mapsto>
                           \<lparr>torrentFiles = files, torrentReady = True\<rparr>))))"

text \<open>
  \<^verbatim>\<open>processStreamRequestAsync\<close>, the helper of the asynchronous path (``same logic as
  sync version''): the same checks, with exact and partial matching only before the
  fallback. A failed check is thrown as an error.
\<close>

definition processStreamRequestAsync ::
  "(string \<Rightarrow> string \<Rightarrow> int) \<Rightarrow> torrent_file list \<Rightarrow> string option \<Rightarrow> js_value
     \<Rightarrow> stream_error + torrent_file option" where
  "processStreamRequestAsync localeCompare files fileName expectedFileCount =
     (let audioFiles = filter isAudioFile files
      in if length audioFiles = 0 then Inl NoAudioFiles
         else if fileCountMismatch expectedFileCount audioFiles
         then Inl (FileCountMismatch expectedFileCount (length audioFiles))
         else Inr
           (let targetFile =
              (case fileName of
                 None \<Rightarrow> None
               | Some fn \<Rightarrow>
                   if fn = [] then None
                   else orElse (exactMatch audioFiles fn) (partialMatch audioFiles fn))
            in case targetFile of
                 Some f \<Rightarrow> Some f
               | None \<Rightarrow> js_index (sortedAudioFiles localeCompare audioFiles) 0))"

text \<open>
  The message of the error that \<^verbatim>\<open>processStreamRequestAsync\<close> throws, and of a rejected
  torrent.
\<close>

definition errorMessage :: "stream_error \<Rightarrow> string" where
  "errorMessage e =
     (case e of
        NoAudioFiles \<Rightarrow> ''No audio files found in torrent''
      | FileCountMismatch expected found \<Rightarrow>
          ''File count mismatch: expected '' @ showValue expected @ '', found '' @ showNat found
      | TorrentFailed message \<Rightarrow> message)"

text \<open>
  A comparator on file names used where a concrete one is needed: code-unit order,
  on which \<^verbatim>\<open>localeCompare\<close> agrees for lower-case letters and for digits.
\<close>

fun codeUnitCompare :: "string \<Rightarrow> string \<Rightarrow> int" where
  "codeUnitCompare [] [] = 0"
| "codeUnitCompare [] (y # ys) = - 1"
| "codeUnitCompare (x # xs) [] = 1"
| "codeUnitCompare (x # xs) (y # ys) =
     (if (of_char x :: nat) < of_char y then - 1
      else if (of_char y :: nat) < of_char x then 1
      else codeUnitCompare xs ys)"

text \<open>
  The hint matches nothing: there is no (truthy) file name, or none of the four matching
  stages finds a file.
\<close>

definition matchesNothing ::
  "(string \<Rightarrow> string \<Rightarrow> int) \<Rightarrow> torrent_file list \<Rightarrow> string option \<Rightarrow> bool" where
  "matchesNothing lc audioFiles fileName =
     (case fileName of
        None \<Rightarrow> True
      | Some fn \<Rightarrow>
          fn = [] \<or>
          (exactMatch audioFiles fn = None \<and> partialMatch audioFiles fn = None \<and>
           byTrackNumber lc audioFiles fn = None \<and> fuzzyMatch audioFiles fn = None))"

text \<open>Five audio files, in an order that is not the sorted one.\<close>

definition fiveFiles :: "torrent_file list" where
  "fiveFiles = [\<lparr>name = ''e.mp3'', content = []\<rparr>, \<lparr>name = ''b.mp3'', content = []\<rparr>,
                \<lparr>name = ''a.mp3'', content = []\<rparr>, \<lparr>name = ''d.mp3'', content = []\<rparr>,
                \<lparr>name = ''c.mp3'', content = []\<rparr>]"

section \<open>Magnet Resolver\<close>

text \<open>
  The response of \<^verbatim>\<open>axios.get\<close> as far as \<^verbatim>\<open>resolveMagnetUrl\<close> reads it: the status, the
  \<^verbatim>\<open>Location\<close> header and the body, which is a string or something else.
\<close>

datatype response_data = TextData string | OtherData

record http_response =
  http_status :: nat
  location :: "string option"
  rdata :: response_data

text \<open>
  The network is a parameter: for a URL it gives a response or fails with a message.
  \<^verbatim>\<open>axios.get\<close> with \<^verbatim>\<open>maxRedirects: 0\<close> and the handler's \<^verbatim>\<open>validateStatus\<close> rejects
  (throws) on a network failure and on a status outside 200..399.
\<close>

type_synonym network = "string \<Rightarrow> string + http_response"

definition validateStatus :: "nat \<Rightarrow> bool" where
  "validateStatus st = (st \<ge> 200 \<and> st < 400)"

definition axiosGet :: "network \<Rightarrow> string \<Rightarrow> string + http_response" where
  "axiosGet net url =
     (case net url of
        Inl e \<Rightarrow> Inl e
      | Inr response \<Rightarrow>
          if validateStatus (http_status response) then Inr response
          else Inl ''Request failed with status code'')"

text \<open>The character class \<^verbatim>\<open>[^"'\s]\<close>.\<close>

definition magnetChar :: "char \<Rightarrow> bool" where
  "magnetChar c = (c \<noteq> CHR 0x22 \<and> c \<noteq> CHR 0x27 \<and> \<not> isSpace c)"

text \<open>\<^verbatim>\<open>body.match(/magnet:\?[^"'\s]+/)\<close>: the leftmost match, its class part greedy.\<close>

fun matchMagnet :: "string \<Rightarrow> string option" where
  "matchMagnet [] = None"
| "matchMagnet (c # cs) =
     (let s = c # cs;
          rest = takeWhile magnetChar (drop 8 s)
      in if startsWith s ''magnet:?'' \<and> rest \<noteq> [] then Some (''magnet:?'' @ rest)
         else matchMagnet cs)"

text \<open>The body of the \<^verbatim>\<open>try\<close> block of \<^verbatim>\<open>resolveMagnetUrl\<close>; \<open>Inl\<close> is a thrown error.\<close>

definition resolveMagnetUrl_try :: "network \<Rightarrow> string \<Rightarrow> string + string" where
  "resolveMagnetUrl_try net downloadUrl =
     (if startsWith downloadUrl ''magnet:'' then Inr downloadUrl
      else if includes_str downloadUrl ''localhost'' \<or> includes_str downloadUrl ''127.0.0.1''
      then
        (case axiosGet net downloadUrl of
           Inl e \<Rightarrow> Inl e
         | Inr response \<Rightarrow>
             (case location response of
                Some loc \<Rightarrow>
                  if loc \<noteq> [] \<and> startsWith loc ''magnet:'' then Inr loc
                  else
                    (case rdata response of
                       TextData body \<Rightarrow>
                         (if body \<noteq> [] then
                            (case matchMagnet body of
                               Some magnetUrl \<Rightarrow> Inr magnetUrl
                             | None \<Rightarrow> Inr downloadUrl)
                          else Inr downloadUrl)
                     | OtherData \<Rightarrow> Inr downloadUrl)
              | None \<Rightarrow>
                  (case rdata response of
                     TextData body \<Rightarrow>
                       (if body \<noteq> [] then
                          (case matchMagnet body of
                             Some magnetUrl \<Rightarrow> Inr magnetUrl
                           | None \<Rightarrow> Inr downloadUrl)
                        else Inr downloadUrl)
                   | OtherData \<Rightarrow> Inr downloadUrl)))
      else Inr downloadUrl)"

text \<open>\<^verbatim>\<open>resolveMagnetUrl\<close>: the \<^verbatim>\<open>catch\<close> block returns the original URL.\<close>

definition resolveMagnetUrl :: "network \<Rightarrow> string \<Rightarrow> string" where
  "resolveMagnetUrl net downloadUrl =
     (case resolveMagnetUrl_try net downloadUrl of
        Inl error \<Rightarrow> downloadUrl
      | Inr resolved \<Rightarrow> resolved)"

text \<open>The response carries no magnet identifier, neither as redirect target nor in its body.\<close>

definition noMagnetIn :: "http_response \<Rightarrow> bool" where
  "noMagnetIn response =
     ((case location response of None \<Rightarrow> True | Some loc \<Rightarrow> \<not> startsWith loc ''magnet:'') \<and>
      (case rdata response of OtherData \<Rightarrow> True | TextData body \<Rightarrow> matchMagnet body = None))"

text \<open>Two networks for concrete runs: one that fails, one that answers with a page.\<close>

definition deadNetwork :: network where
  "deadNetwork url = Inl ''connect ECONNREFUSED''"

definition pageNetwork :: "string \<Rightarrow> network" where
  "pageNetwork body url = Inr \<lparr>http_status = 200, location = None, rdata = TextData body\<rparr>"

section \<open>Ranking Engine\<close>

text \<open>
  A candidate as the indexer returns it. A numeric field is \<open>None\<close> when it is absent or
  not a number; \<open>publishDate\<close> is in milliseconds since the epoch, \<open>None\<close> when it is
  absent or not a date (\<^verbatim>\<open>new Date(..)\<close> is then invalid and every comparison with it
  is false).
\<close>

record torrent =
  title :: "string option"
  seeders :: "int option"
  leechers :: "int option"
  size_f :: "int option"
  publishDate :: "int option"

text \<open>\<^verbatim>\<open>{ ...torrent, score }\<close> and the richer result of the precise ranking.\<close>

record ranked_torrent = torrent +
  score :: int

record precise_torrent = ranked_torrent +
  titleSimilarity :: int
  ageInDays :: "int option"

text \<open>\<^verbatim>\<open>parseInt(x) || 0\<close>, \<^verbatim>\<open>parseFloat(x) || 0\<close> and \<^verbatim>\<open>x || 0\<close> on such a field.\<close>

definition orZero :: "int option \<Rightarrow> int" where
  "orZero v = (case v of None \<Rightarrow> 0 | Some n \<Rightarrow> n)"

text \<open>\<^verbatim>\<open>(x || '')\<close> on an optional string.\<close>

definition orEmpty :: "string option \<Rightarrow> string" where
  "orEmpty v = (case v of None \<Rightarrow> [] | Some s \<Rightarrow> s)"

text \<open>\<^verbatim>\<open>s.split(/\s+/)\<close>: the pieces between maximal runs of white space.\<close>

function splitWhitespace :: "string \<Rightarrow> string list" where
  "splitWhitespace [] = [[]]"
| "splitWhitespace (c # cs) =
     (if isSpace c then [] # splitWhitespace (dropWhile isSpace cs)
      else (case splitWhitespace cs of [] \<Rightarrow> [[c]] | w # ws \<Rightarrow> (c # w) # ws))"
  by pat_completeness auto
termination
  by (relation "measure length") (auto simp: length_dropWhile_le less_Suc_eq_le)

definition dayMs :: int where
  "dayMs = 24 * 60 * 60 * 1000"

text \<open>The first filter of the precise ranking: old enough and with an active seeder.\<close>

definition isOldEnough :: "int \<Rightarrow> torrent \<Rightarrow> bool" where
  "isOldEnough now torrent =
     (case publishDate torrent of
        None \<Rightarrow> False
      | Some published \<Rightarrow> published \<le> now - 2 * dayMs)"

definition hasActiveSeeder :: "torrent \<Rightarrow> bool" where
  "hasActiveSeeder torrent = (orZero (seeders torrent) > 0)"

text \<open>
  The score of the precise ranking (\<^verbatim>\<open>POST /api/find-best-torrent\<close>, synchronous path).
  The arithmetic is exact (rational numbers), rounded at the end as \<^verbatim>\<open>Math.round\<close> does.
\<close>

definition matchFraction :: "string \<Rightarrow> string \<Rightarrow> rat" where
  "matchFraction lowerTitle trackLower =
     (let titleWords = splitWhitespace trackLower;
          matchedWords = length (filter (\<lambda>word. length word > 2 \<and> includes_str lowerTitle word)
                                   titleWords)
      in if length titleWords > 0 then of_nat matchedWords / of_nat (length titleWords) else 0)"

definition ageDays :: "int \<Rightarrow> torrent \<Rightarrow> rat option" where
  "ageDays now torrent =
     (case publishDate torrent of
        None \<Rightarrow> None
      | Some published \<Rightarrow> Some (of_int (now - published) / of_int dayMs))"

definition preciseScore ::
  "int \<Rightarrow> string \<Rightarrow> string \<Rightarrow> string option \<Rightarrow> torrent \<Rightarrow> rat" where
  "preciseScore now trackTitle artistName albumTitle torrent =
     (let title = toLowerCase (orEmpty (title torrent));
          trackLower = toLowerCase trackTitle;
          artistLower = toLowerCase artistName;
          seeders = orZero (seeders torrent);
          score = of_int (seeders * 10);
          score = score + matchFraction title trackLower * 1000;
          score = (if artistLower \<noteq> [] \<and> includes_str title artistLower
                   then score + 500 else score);
          score = (case albumTitle of
                     None \<Rightarrow> score
                   | Some album \<Rightarrow>
                       if album \<noteq> [] \<and> includes_str title (toLowerCase album)
                       then score + 300 else score);
          score = (if includes_str title ''flac'' then score + 200
                   else if includes_str title ''mp3'' then score + 100
                   else score);
          sizeGB = orZero (size_f torrent);
          score = (if sizeGB > 500 then score - 200 else score);
          score = (case ageDays now torrent of
                     None \<Rightarrow> score
                   | Some age \<Rightarrow> if age > 30 then score + 50 else score);
          leechers = orZero (leechers torrent);
          score = (if seeders > 0 \<and> leechers > 0 \<and>
                      (of_int seeders :: rat) / of_int leechers > 2
                   then score + 100 else score)
      in score)"

definition scorePrecise ::
  "int \<Rightarrow> string \<Rightarrow> string \<Rightarrow> string option \<Rightarrow> torrent \<Rightarrow> precise_torrent" where
  "scorePrecise now trackTitle artistName albumTitle torrent =
     \<lparr>title = title torrent,
      seeders = Some (orZero (seeders torrent)),
      leechers = leechers torrent,
      size_f = size_f torrent,
      publishDate = publishDate torrent,
      score = round (preciseScore now trackTitle artistName albumTitle torrent),
      titleSimilarity =
        round (matchFraction (toLowerCase (orEmpty (title torrent))) (toLowerCase trackTitle)
               * 100),
      ageInDays = map_option round (ageDays now torrent)\<rparr>"

text \<open>\<^verbatim>\<open>(a, b) => b.score - a.score\<close>: highest score first.\<close>

definition byScoreDesc :: "'a ranked_torrent_scheme \<Rightarrow> 'a ranked_torrent_scheme \<Rightarrow> int" where
  "byScoreDesc a b = score b - score a"

definition rankPrecise ::
  "int \<Rightarrow> string \<Rightarrow> string \<Rightarrow> string option \<Rightarrow> torrent list \<Rightarrow> precise_torrent list" where
  "rankPrecise now trackTitle artistName albumTitle allTorrents =
     js_sort byScoreDesc
       (filter (\<lambda>torrent. score torrent > 0)
          (map (scorePrecise now trackTitle artistName albumTitle)
             (filter (\<lambda>torrent. isOldEnough now torrent \<and> hasActiveSeeder torrent)
                allTorrents)))"

text \<open>The seeder score, the same chain of comparisons in both light scorings.\<close>

definition seederBonus :: "int \<Rightarrow> int" where
  "seederBonus n =
     (if n > 50 then 100
      else if n > 20 then 80
      else if n > 10 then 60
      else if n > 5 then 40
      else if n > 0 then 20
      else 0)"

text \<open>\<^verbatim>\<open>scoreAndFilterTorrents\<close>, the light ranking of the asynchronous search.\<close>

definition lightScore :: "string \<Rightarrow> string \<Rightarrow> string option \<Rightarrow> torrent \<Rightarrow> int" where
  "lightScore artistName trackTitle albumTitle torrent =
     (let seeders = orZero (seeders torrent);
          title = toLowerCase (orEmpty (title torrent));
          score = seederBonus seeders;
          searchTerms = toLowerCase (artistName @ '' '' @ trackTitle @ '' '' @ orEmpty albumTitle);
          searchWords = filter (\<lambda>word. length word > 2) (split_str CHR '' '' searchTerms)
      in foldl (\<lambda>score word. if includes_str title word then score + 15 else score)
           score searchWords)"

definition withScore :: "torrent \<Rightarrow> int \<Rightarrow> ranked_torrent" where
  "withScore torrent s =
     \<lparr>title = title torrent, seeders = seeders torrent, leechers = leechers torrent,
      size_f = size_f torrent, publishDate = publishDate torrent, score = s\<rparr>"

definition scoreAndFilterTorrents ::
  "torrent list \<Rightarrow> string \<Rightarrow> string \<Rightarrow> string option \<Rightarrow> ranked_torrent list" where
  "scoreAndFilterTorrents torrents artistName trackTitle albumTitle =
     (let activeTorrents = filter (\<lambda>torrent. orZero (seeders torrent) > 0) torrents;
          scoredTorrents =
            map (\<lambda>torrent. withScore torrent (lightScore artistName trackTitle albumTitle torrent))
              activeTorrents
      in js_sort byScoreDesc scoredTorrents)"

section \<open>Album Pre-loader\<close>

text \<open>
  The scoring inside the background pre-load of \<^verbatim>\<open>POST /api/artist-details\<close>, for the
  query \<^verbatim>\<open>`${artistName} ${album.title}`\<close> and the time \<open>now\<close> of \<^verbatim>\<open>Date.now()\<close>.
\<close>

definition preloadWordScore :: "string \<Rightarrow> string list \<Rightarrow> int \<Rightarrow> string \<Rightarrow> int" where
  "preloadWordScore lowerTitle titleWords acc word =
     (if length word > 2 then
        (if includes_str lowerTitle word then
           (if word \<in> set titleWords then acc + 15 + 10 else acc + 15)
         else acc)
      else acc)"

definition preloadSizeScore :: "int \<Rightarrow> int" where
  "preloadSizeScore sz =
     (if sz > 0 then
        (let sizeMB = (of_int sz :: rat) / (1024 * 1024)
         in if sizeMB \<ge> 50 \<and> sizeMB \<le> 500 then 10
            else if sizeMB > 500 \<and> sizeMB \<le> 1000 then 5
            else 0)
      else 0)"

definition preloadAgeScore :: "int \<Rightarrow> torrent \<Rightarrow> int" where
  "preloadAgeScore now torrent =
     (case publishDate torrent of
        None \<Rightarrow> 0
      | Some published \<Rightarrow>
          (let ageMs = now - published;
               ageDays = (of_int ageMs :: rat) / (1000 * 60 * 60 * 24)
           in if ageDays < 30 then 5
              else if ageDays < 90 then 3
              else if ageDays < 365 then 1
              else 0))"

definition preloadScore :: "int \<Rightarrow> string \<Rightarrow> torrent \<Rightarrow> int" where
  "preloadScore now searchQuery torrent =
     (let seeders = orZero (seeders torrent);
          sz = orZero (size_f torrent);
          title = toLowerCase (orEmpty (title torrent));
          searchTermsLower = toLowerCase searchQuery;
          score = seederBonus seeders;
          queryWords = split_str CHR '' '' searchTermsLower;
          titleWords = split_str CHR '' '' title;
          score = foldl (preloadWordScore title titleWords) score queryWords;
          score = score + preloadSizeScore sz;
          score = score + preloadAgeScore now torrent
      in score)"

text \<open>Filter for active torrents, score, sort by score and take the top 20.\<close>

definition preloadAlbumTorrents :: "int \<Rightarrow> string \<Rightarrow> torrent list \<Rightarrow> ranked_torrent list" where
  "preloadAlbumTorrents now searchQuery found =
     (let torrents = filter (\<lambda>torrent. orZero (seeders torrent) > 0) found
      in if length torrents = 0 then []
         else take 20
                (js_sort byScoreDesc
                   (map (\<lambda>torrent. withScore torrent (preloadScore now searchQuery torrent))
                      torrents)))"

text \<open>
  The light ranking variant in the specification's words: the step-function seeder bonus
  plus 15 points for each query word longer than two characters that the title contains,
  and nothing else.
\<close>

definition specLightScore :: "string \<Rightarrow> torrent \<Rightarrow> int" where
  "specLightScore searchQuery torrent =
     seederBonus (orZero (seeders torrent)) +
     15 * int (length (filter
                 (\<lambda>word. length word > 2 \<and>
                          includes_str (toLowerCase (orEmpty (title torrent))) word)
                 (split_str CHR '' '' (toLowerCase searchQuery))))"

text \<open>The pre-loader's additional bonus for query words that are whole words of the title.\<close>

definition exactWordBonus :: "string \<Rightarrow> torrent \<Rightarrow> int" where
  "exactWordBonus searchQuery torrent =
     10 * int (length (filter
                 (\<lambda>word. length word > 2 \<and>
                          includes_str (toLowerCase (orEmpty (title torrent))) word \<and>
                          word \<in> set (split_str CHR '' '' (toLowerCase (orEmpty (title torrent)))))
                 (split_str CHR '' '' (toLowerCase searchQuery))))"

text \<open>Candidates of the end-to-end scenario and of the examples below (times in ms).\<close>

definition flacCandidate :: torrent where
  "flacCandidate = \<lparr>title = Some ''Artist - Song (FLAC)'', seeders = Some 50,
     leechers = Some 5, size_f = Some 40, publishDate = Some 0\<rparr>"

definition freshCandidate :: torrent where
  "freshCandidate = \<lparr>title = Some ''Artist - Song'', seeders = Some 0,
     leechers = Some 0, size_f = Some 5, publishDate = Some (40 * dayMs)\<rparr>"

definition albumCandidate :: torrent where
  "albumCandidate = \<lparr>title = Some ''Artist Album'', seeders = Some 60,
     leechers = Some 1, size_f = Some (100 * 1024 * 1024), publishDate = Some 0\<rparr>"

section \<open>Job Orchestrator\<close>

datatype job_status = Pending | Processing | Completed | Failed

text \<open>The result payloads of the two kinds of job.\<close>

datatype job_result =
    NoSuitableTorrents
  | BestTorrent ranked_torrent "ranked_torrent list"
  | StreamInfo torrent_file nat

text \<open>
  An entry of \<^verbatim>\<open>asyncJobs\<close>. A field that the object does not have yet is \<open>None\<close>.
  Times are in milliseconds.
\<close>

record async_job =
  status :: job_status
  jobType :: string
  startedAt :: int
  progress :: nat
  result :: "job_result option"
  error :: "string option"
  completedAt :: "int option"

text \<open>The accept paths store the new job before they answer and before the task starts.\<close>

definition acceptJob :: "string \<Rightarrow> int \<Rightarrow> async_job" where
  "acceptJob kind now =
     \<lparr>status = Pending, jobType = kind, startedAt = now, progress = 0,
      result = None, error = None, completedAt = None\<rparr>"

definition acceptFindBestTorrent :: "int \<Rightarrow> async_job" where
  "acceptFindBestTorrent now = acceptJob ''find-best-torrent'' now"

definition acceptStreamTorrent :: "int \<Rightarrow> async_job" where
  "acceptStreamTorrent now = acceptJob ''stream-torrent'' now"

text \<open>The \<^verbatim>\<open>catch\<close> block of both background tasks.\<close>

definition failJob :: "async_job \<Rightarrow> string \<Rightarrow> int \<Rightarrow> async_job" where
  "failJob job message now =
     job\<lparr>status := Failed, progress := 100, error := Some message, completedAt := Some now\<rparr>"

text \<open>
  What the torrent search hands to the scoring: \<^verbatim>\<open>searchMultipleTorrentQueries\<close> catches
  the errors of every query and always returns a list. An entry of the list that is not
  an object (\<^verbatim>\<open>null\<close>) is \<open>None\<close>; \<^verbatim>\<open>scoreAndFilterTorrents\<close> throws a type error when it
  reads the seeders of such an entry.
\<close>

definition nullEntryMessage :: string where
  "nullEntryMessage =
     ''Cannot read properties of null (reading '' @ [CHR 0x27] @ ''seeders'' @ [CHR 0x27] @ '')''"

definition scoreAndFilterFound ::
  "torrent option list \<Rightarrow> string \<Rightarrow> string \<Rightarrow> string option \<Rightarrow> ranked_torrent list outcome" where
  "scoreAndFilterFound allTorrents artistName trackTitle albumTitle =
     (case those allTorrents of
        None \<Rightarrow> Throws nullEntryMessage
      | Some torrents \<Rightarrow>
          Returns (scoreAndFilterTorrents torrents artistName trackTitle albumTitle))"

text \<open>
  \<^verbatim>\<open>processTorrentSearchAsync\<close>, as the list of the values it stores under the job's
  identifier, in order; each is the previous entry with some fields replaced
  (\<^verbatim>\<open>{ ...asyncJobs.get(jobId), ... }\<close>). The entry is present throughout: it is deleted
  only after a poll has seen a terminal status. The names are those after the metadata
  step, whose own errors are caught inside it; \<open>allTorrents\<close> is what the torrent search
  returned. The scoring is the one call of the task that can throw.
\<close>

definition processTorrentSearchAsync ::
  "async_job \<Rightarrow> string \<Rightarrow> string \<Rightarrow> string option \<Rightarrow> torrent option list \<Rightarrow> int
     \<Rightarrow> async_job list" where
  "processTorrentSearchAsync job enhancedArtistName enhancedTrackTitle enhancedAlbumTitle
       allTorrents now =
     (let j1 = job\<lparr>status := Processing, progress := 10\<rparr>;
          j2 = j1\<lparr>progress := 20\<rparr>;
          j3 = j2\<lparr>progress := 40\<rparr>;
          j4 = j3\<lparr>progress := 50\<rparr>;
          j5 = j4\<lparr>progress := 70\<rparr>
      in case scoreAndFilterFound allTorrents enhancedArtistName enhancedTrackTitle
                enhancedAlbumTitle of
           Throws message \<Rightarrow> [j1, j2, j3, j4, j5, failJob j5 message now]
         | Returns scoredTorrents \<Rightarrow>
             (let j6 = j5\<lparr>progress := 90\<rparr>
              in if length scoredTorrents = 0
                 then [j1, j2, j3, j4, j5, j6,
                       j6\<lparr>status := Completed, progress := 100,
                          result := Some NoSuitableTorrents\<rparr>]
                 else
                   (let topTorrents = take 10 scoredTorrents
                    in [j1, j2, j3, j4, j5, j6,
                        j6\<lparr>status := Completed, progress := 100, completedAt := Some now,
                           result := Some (BestTorrent (hd topTorrents) (tl topTorrents))\<rparr>])))"

text \<open>
  The end of \<^verbatim>\<open>processTorrentStreamAsync\<close> once it has its torrent: progress 80, the
  helper, then completion; an error that the helper throws goes to the \<^verbatim>\<open>catch\<close> block
  with its message. A selection that ends without a file throws when the file's name is
  read.
\<close>

definition undefinedTargetMessage :: string where
  "undefinedTargetMessage =
     ''Cannot read properties of undefined (reading '' @ [CHR 0x27] @ ''name'' @ [CHR 0x27] @ '')''"

definition finishStream ::
  "(string \<Rightarrow> string \<Rightarrow> int) \<Rightarrow> async_job \<Rightarrow> torrent_file list \<Rightarrow> string option \<Rightarrow> js_value
     \<Rightarrow> int \<Rightarrow> async_job list" where
  "finishStream localeCompare current files fileName expectedFileCount now =
     (let j80 = current\<lparr>progress := 80\<rparr>
      in case processStreamRequestAsync localeCompare files fileName expectedFileCount of
           Inl thrown \<Rightarrow> [j80, failJob j80 (errorMessage thrown) now]
         | Inr None \<Rightarrow> [j80, failJob j80 undefinedTargetMessage now]
         | Inr (Some targetFile) \<Rightarrow>
             [j80,
              j80\<lparr>status := Completed, progress := 100, completedAt := Some now,
                  result := Some (StreamInfo targetFile (file_length targetFile))\<rparr>])"

text \<open>
  \<^verbatim>\<open>processTorrentStreamAsync\<close>, in the same form. \<open>registered\<close> is the registry's entry
  for the magnet link (its files); \<open>added\<close> is the outcome of adding the torrent and
  waiting for it: the files of the ready torrent, or the error of the timeout or of the
  engine.
\<close>

definition processTorrentStreamAsync ::
  "(string \<Rightarrow> string \<Rightarrow> int) \<Rightarrow> async_job \<Rightarrow> torrent_file list option
     \<Rightarrow> torrent_file list outcome \<Rightarrow> string option \<Rightarrow> js_value \<Rightarrow> int \<Rightarrow> async_job list" where
  "processTorrentStreamAsync localeCompare job registered added fileName expectedFileCount now =
     (let j1 = job\<lparr>status := Processing, progress := 10\<rparr>
      in case registered of
           Some files \<Rightarrow>
             j1 # finishStream localeCompare j1 files fileName expectedFileCount now
         | None \<Rightarrow>
             (let j2 = j1\<lparr>progress := 20\<rparr>
              in case added of
                   Throws message \<Rightarrow> [j1, j2, failJob j2 message now]
                 | Returns files \<Rightarrow>
                     j1 # j2 # finishStream localeCompare j2 files fileName expectedFileCount
                                 now))"

text \<open>The transitions of the job state machine, and the terminal states.\<close>

fun transition :: "job_status \<Rightarrow> job_status \<Rightarrow> bool" where
  "transition Pending Processing = True"
| "transition Processing Processing = True"
| "transition Processing Completed = True"
| "transition Processing Failed = True"
| "transition _ _ = False"

fun terminal :: "job_status \<Rightarrow> bool" where
  "terminal Completed = True"
| "terminal Failed = True"
| "terminal _ = False"

text \<open>
  A history of a job is well-formed: it starts pending with progress 0, every step is a
  transition of the state machine, exactly one entry is terminal and it is the last one,
  with progress 100, and the progress never decreases.
\<close>

definition lifecycle :: "async_job list \<Rightarrow> bool" where
  "lifecycle history =
     (history \<noteq> [] \<and>
      status (hd history) = Pending \<and> progress (hd history) = 0 \<and>
      successively transition (map status history) \<and>
      length (filter terminal (map status history)) = 1 \<and>
      terminal (status (last history)) \<and>
      progress (last history) = 100 \<and>
      sorted (map progress history))"

section \<open>Streaming Responder\<close>

text \<open>
  \<^verbatim>\<open>parseInt(s, 10)\<close>: leading white space, an optional sign, then the longest run of
  digits; \<^verbatim>\<open>NaN\<close> when there is no digit.
\<close>

definition parseInt :: "string \<Rightarrow> int option" where
  "parseInt s =
     (let t = dropWhile isSpace s;
          negative = (t \<noteq> [] \<and> hd t = CHR ''-'');
          u = (if t \<noteq> [] \<and> (hd t = CHR ''-'' \<or> hd t = CHR ''+'') then tl t else t);
          ds = takeWhile isDigit u
      in if ds = [] then None
         else Some (if negative then - int (parseDigits ds) else int (parseDigits ds)))"

definition numSub :: "int option \<Rightarrow> int option \<Rightarrow> int option" where
  "numSub a b = (case a of None \<Rightarrow> None
                 | Some x \<Rightarrow> (case b of None \<Rightarrow> None | Some y \<Rightarrow> Some (x - y)))"

definition numAdd :: "int option \<Rightarrow> int option \<Rightarrow> int option" where
  "numAdd a b = (case a of None \<Rightarrow> None
                 | Some x \<Rightarrow> (case b of None \<Rightarrow> None | Some y \<Rightarrow> Some (x + y)))"

text \<open>\<^verbatim>\<open>s.replace(/pat/, "")\<close> for a literal pattern: the first occurrence is removed.\<close>

fun removeFirst :: "string \<Rightarrow> string \<Rightarrow> string" where
  "removeFirst pat [] = []"
| "removeFirst pat (c # cs) =
     (if startsWith (c # cs) pat then drop (length pat) (c # cs)
      else c # removeFirst pat cs)"

text \<open>Helper function to get MIME type.\<close>

definition mimeTypes :: "(string \<times> string) list" where
  "mimeTypes =
     [(''mp3'', ''audio/mpeg''), (''flac'', ''audio/flac''), (''wav'', ''audio/wav''),
      (''m4a'', ''audio/mp4''), (''aac'', ''audio/aac''), (''ogg'', ''audio/ogg''),
      (''wma'', ''audio/x-ms-wma'')]"

definition getMimeType :: "string \<Rightarrow> string" where
  "getMimeType filename =
     (let ext = last (split_str CHR ''.'' (toLowerCase filename))
      in case map_of mimeTypes ext of None \<Rightarrow> ''audio/mpeg'' | Some mime \<Rightarrow> mime)"

text \<open>
  The swarm engine is not part of the repository. Its read stream is modelled by its
  interface: the bytes of the file from \<open>start\<close> to \<open>end\<close>, both inclusive, as far as the
  file has them; without options, the whole file.
\<close>

definition createReadStream :: "torrent_file \<Rightarrow> (int option \<times> int option) option \<Rightarrow> nat list" where
  "createReadStream file opts =
     (case opts of
        None \<Rightarrow> content file
      | Some (start, end) \<Rightarrow>
          (let s = (case start of None \<Rightarrow> 0 | Some s \<Rightarrow> max 0 s);
               e = (case end of None \<Rightarrow> int (file_length file) - 1
                    | Some e \<Rightarrow> min e (int (file_length file) - 1))
           in take (nat (e + 1 - s)) (drop (nat s) (content file))))"

text \<open>The answer of the streaming endpoint: status code, headers and body.\<close>

record http_reply =
  code :: nat
  headers :: "string \<rightharpoonup> string"
  body :: "nat list"

text \<open>
  \<^verbatim>\<open>GET /api/stream-file/:magnetLink/:fileName\<close>. \<open>activeTorrents\<close> maps a magnet link to
  the files of its torrent; \<open>range\<close> is the request's \<^verbatim>\<open>Range\<close> header. \<open>Inl\<close> is a JSON
  error answer with its status.
\<close>

definition streamFile ::
  "(string \<rightharpoonup> torrent_file list) \<Rightarrow> string \<Rightarrow> string \<Rightarrow> string option
     \<Rightarrow> (nat \<times> string) + http_reply" where
  "streamFile activeTorrents decodedMagnetLink decodedFileName rangeHeader =
     (case activeTorrents decodedMagnetLink of
        None \<Rightarrow> Inl (404, ''Torrent not found'')
      | Some files \<Rightarrow>
          (case find (\<lambda>file. name file = decodedFileName) files of
             None \<Rightarrow> Inl (404, ''File not found in torrent'')
           | Some targetFile \<Rightarrow>
               (let len = Some (int (file_length targetFile));
                    hs = [''Content-Type'' \<mapsto> getMimeType decodedFileName,
                          ''Content-Length'' \<mapsto> showNumber len,
                          ''Accept-Ranges'' \<mapsto> ''bytes'',
                          ''Cache-Control'' \<mapsto> ''no-cache''];
                    full = \<lparr>code = 200, headers = hs,
                            body = createReadStream targetFile None\<rparr>;
                    partial = (\<lambda>r.
                      (let parts = split_str CHR ''-'' (removeFirst ''bytes='' r);
                           start = parseInt (hd parts);
                           end = (case js_index parts 1 of
                                    None \<Rightarrow> numSub len (Some 1)
                                  | Some p \<Rightarrow> if p \<noteq> [] then parseInt p
                                             else numSub len (Some 1));
                           chunksize = numAdd (numSub end start) (Some 1)
                       in \<lparr>code = 206,
                           headers = hs(''Content-Range'' \<mapsto>
                                          ''bytes '' @ showNumber start @ ''-'' @ showNumber end
                                            @ ''/'' @ showNumber len,
                                        ''Content-Length'' \<mapsto> showNumber chunksize),
                           body = createReadStream targetFile (Some (start, end))\<rparr>))
                in case rangeHeader of
                     None \<Rightarrow> Inr full
                   | Some r \<Rightarrow> if r \<noteq> [] then Inr (partial r) else Inr full)))"

text \<open>A file of 1000 bytes, registered under a magnet link.\<close>

definition song :: torrent_file where
  "song = \<lparr>name = ''song.mp3'', content = replicate 1000 0\<rparr>"

definition oneTorrent :: "string \<rightharpoonup> torrent_file list" where
  "oneTorrent = [''magnet:?xt=urn:btih:abc'' \<mapsto> [song]]"

text \<open>What a client observes of an answer: the status, a header, the number of bytes.\<close>

definition replyCode :: "(nat \<times> string) + http_reply \<Rightarrow> nat" where
  "replyCode answer = (case answer of Inl (st, message) \<Rightarrow> st | Inr reply \<Rightarrow> code reply)"

definition replyHeader :: "(nat \<times> string) + http_reply \<Rightarrow> string \<Rightarrow> string option" where
  "replyHeader answer h = (case answer of Inl e \<Rightarrow> None | Inr reply \<Rightarrow> headers reply h)"

definition replyBody :: "(nat \<times> string) + http_reply \<Rightarrow> nat list" where
  "replyBody answer = (case answer of Inl e \<Rightarrow> [] | Inr reply \<Rightarrow> body reply)"

text \<open>The header value \<^verbatim>\<open>bytes=s-e\<close>, or \<^verbatim>\<open>bytes=s-\<close> when only a start is given.\<close>

definition byteRange :: "nat \<Rightarrow> nat option \<Rightarrow> string" where
  "byteRange s e =
     ''bytes='' @ showNat s @ ''-'' @ (case e of None \<Rightarrow> [] | Some e' \<Rightarrow> showNat e')"

definition contentRange :: "nat \<Rightarrow> nat \<Rightarrow> nat \<Rightarrow> string" where
  "contentRange s e len = ''bytes '' @ showNat s @ ''-'' @ showNat e @ ''/'' @ showNat len"

section \<open>Torrent Handle Registry\<close>

text \<open>
  The registry \<^verbatim>\<open>activeTorrents\<close> and the swarm engine as the handlers use them. A torrent
  object is identified by the position of the \<^verbatim>\<open>torrentClient.add\<close> call that made it, and
  \<open>activeTorrentIds\<close> maps a magnet link to the torrent object stored for it;
  \<open>addCalls\<close> is the list of the magnet links the engine was asked to add, in order.
\<close>

record engine_state =
  activeTorrentIds :: "string \<rightharpoonup> nat"
  addCalls :: "string list"

definition initialEngine :: engine_state where
  "initialEngine = \<lparr>activeTorrentIds = Map.empty, addCalls = []\<rparr>"

text \<open>
  A request of the synchronous \<^verbatim>\<open>POST /api/stream-torrent\<close> path between its suspension
  points: it has its resolved magnet link and is about to look into the registry; it has
  added a torrent and waits for the \<^verbatim>\<open>ready\<close> event; it holds its torrent.
\<close>

datatype request = Arrived string | Awaiting string nat | Holding nat

text \<open>
  What one request does when the event loop runs it, up to its next suspension point.
  The look-up and \<^verbatim>\<open>torrentClient.add\<close> run without interruption; the torrent is stored
  in the registry only after the \<^verbatim>\<open>ready\<close> event has resumed the request.
\<close>

fun step :: "engine_state \<Rightarrow> request \<Rightarrow> engine_state \<times> request" where
  "step st (Arrived magnetLink) =
     (case activeTorrentIds st magnetLink of
        Some torrent \<Rightarrow> (st, Holding torrent)
      | None \<Rightarrow>
          (st\<lparr>addCalls := addCalls st @ [magnetLink]\<rparr>, Awaiting magnetLink (length (addCalls st))))"
| "step st (Awaiting magnetLink torrent) =
     (st\<lparr>activeTorrentIds := (activeTorrentIds st)(magnetLink \<mapsto> torrent)\<rparr>, Holding torrent)"
| "step st (Holding torrent) = (st, Holding torrent)"

text \<open>The event loop runs the reqs in the order of a schedule (indices of reqs).\<close>

fun run :: "nat list \<Rightarrow> engine_state \<times> request list \<Rightarrow> engine_state \<times> request list" where
  "run [] conf = conf"
| "run (i # schedule) (st, reqs) =
     (if i < length reqs
      then (case step st (reqs ! i) of
              (st', r') \<Rightarrow> run schedule (st', reqs[i := r']))
      else run schedule (st, reqs))"

text \<open>
  The pre-loader's registration of a resolved magnet link: look-up, \<^verbatim>\<open>torrentClient.add\<close>
  and \<^verbatim>\<open>activeTorrents.set\<close> in one uninterrupted piece (``Store immediately'').
\<close>

definition preloadRegister :: "engine_state \<Rightarrow> string \<Rightarrow> engine_state" where
  "preloadRegister st resolvedMagnetUrl =
     (if activeTorrentIds st resolvedMagnetUrl \<noteq> None then st
      else st\<lparr>addCalls := addCalls st @ [resolvedMagnetUrl],
              activeTorrentIds := (activeTorrentIds st)(resolvedMagnetUrl \<mapsto> length (addCalls st))\<rparr>)"

section \<open>Metadata rate limiter\<close>

text \<open>
  Time is a clock in milliseconds carried in the state; \<open>requests\<close> are the times at which
  a request was sent to the metadata service. A call takes \<open>latency\<close> milliseconds to
  answer; \<^verbatim>\<open>setTimeout\<close> is taken to fire exactly on time.
\<close>

record mb_state =
  clock :: int
  lastMusicBrainzCall :: int
  requests :: "int list"

definition rateLimit :: int where
  "rateLimit = 1000"

definition rateLimitedMusicBrainzCall :: "int \<Rightarrow> mb_state \<Rightarrow> mb_state" where
  "rateLimitedMusicBrainzCall latency st =
     (let now = clock st;
          timeSinceLastCall = now - lastMusicBrainzCall st;
          minInterval = rateLimit;
          sent = (if timeSinceLastCall < minInterval
                  then now + (minInterval - timeSinceLastCall) else now)
      in st\<lparr>clock := sent + latency, lastMusicBrainzCall := sent,
             requests := requests st @ [sent]\<rparr>)"

text \<open>\<^verbatim>\<open>axios.get\<close> on a URL of the metadata service, called directly.\<close>

definition axiosGetMusicBrainz :: "int \<Rightarrow> mb_state \<Rightarrow> mb_state" where
  "axiosGetMusicBrainz latency st =
     st\<lparr>clock := clock st + latency, requests := requests st @ [clock st]\<rparr>"

definition sleep :: "int \<Rightarrow> mb_state \<Rightarrow> mb_state" where
  "sleep ms st = st\<lparr>clock := clock st + ms\<rparr>"

text \<open>
  The metadata requests of \<^verbatim>\<open>POST /api/artist-albums\<close> (one) and of
  \<^verbatim>\<open>POST /api/artist-details\<close> (the artist, then the five release types with a delay of
  200 ms after each), every call answered at its first attempt.
\<close>

definition artistAlbums :: "int \<Rightarrow> mb_state \<Rightarrow> mb_state" where
  "artistAlbums latency st = axiosGetMusicBrainz latency st"

definition releaseTypes :: "string list" where
  "releaseTypes = [''album'', ''ep'', ''single'', ''broadcast'', ''other'']"

definition artistDetails :: "int \<Rightarrow> mb_state \<Rightarrow> mb_state" where
  "artistDetails latency st =
     foldl (\<lambda>s releaseType. sleep 200 (axiosGetMusicBrainz latency s))
       (axiosGetMusicBrainz latency st) releaseTypes"

text \<open>The spacings between consecutive requests.\<close>

fun gaps :: "int list \<Rightarrow> int list" where
  "gaps (a # b # rest) = (b - a) # gaps (b # rest)"
| "gaps _ = []"

definition startOfDay :: mb_state where
  "startOfDay = \<lparr>clock = 1000000, lastMusicBrainzCall = 0, requests = []\<rparr>"

section \<open>Properties of the stable sort\<close>


lemma set_insert_by: "set (insert_by cmp x xs) = insert x (set xs)"
  by (induction xs) auto

lemma mset_insert_by: "mset (insert_by cmp x xs) = add_mset x (mset xs)"
  by (induction xs) auto

lemma mset_js_sort: "mset (js_sort cmp xs) = mset xs"
  by (induction xs) (auto simp: js_sort_def mset_insert_by)

lemma set_js_sort: "set (js_sort cmp xs) = set xs"
  using mset_js_sort [of cmp xs] by (metis set_mset_mset)

lemma length_js_sort: "length (js_sort cmp xs) = length xs"
  using mset_js_sort [of cmp xs] by (metis size_mset)

lemma sorted_insert_by:
  assumes "consistent cmp" and "sorted_wrt (\<lambda>a b. cmp a b \<le> 0) xs"
  shows "sorted_wrt (\<lambda>a b. cmp a b \<le> 0) (insert_by cmp x xs)"
  using assms(2)
proof (induction xs)
  case Nil
  then show ?case by simp
next
  case (Cons y ys)
  have total: "\<And>a b. cmp a b \<le> 0 \<or> cmp b a \<le> 0"
    and trans: "\<And>a b c. cmp a b \<le> 0 \<Longrightarrow> cmp b c \<le> 0 \<Longrightarrow> cmp a c \<le> 0"
    using assms(1) unfolding consistent_def by blast+
  show ?case
  proof (cases "cmp x y \<le> 0")
    case True
    with Cons.prems trans show ?thesis by auto
  next
    case False
    then have "cmp y x \<le> 0" using total by blast
    with False Cons show ?thesis by (auto simp: set_insert_by)
  qed
qed

lemma sorted_js_sort:
  "consistent cmp \<Longrightarrow> sorted_wrt (\<lambda>a b. cmp a b \<le> 0) (js_sort cmp xs)"
  by (induction xs) (auto simp: js_sort_def sorted_insert_by)

lemma codeUnitCompare_total: "codeUnitCompare a b \<le> 0 \<or> codeUnitCompare b a \<le> 0"
  by (induction a b rule: codeUnitCompare.induct) auto

lemma codeUnitCompare_trans:
  "codeUnitCompare a b \<le> 0 \<Longrightarrow> codeUnitCompare b c \<le> 0 \<Longrightarrow> codeUnitCompare a c \<le> 0"
proof (induction a arbitrary: b c)
  case Nil
  then show ?case by (cases c) auto
next
  case (Cons x xs)
  then show ?case
    by (cases b; cases c) (auto split: if_splits)
qed

lemma codeUnitCompare_consistent: "consistent codeUnitCompare"
  unfolding consistent_def using codeUnitCompare_total codeUnitCompare_trans by blast


lemma js_index_0: "xs \<noteq> [] \<Longrightarrow> js_index xs 0 = Some (hd xs)"
  by (cases xs) (simp_all add: js_index_def)

lemma sortedAudioFiles_mset: "mset (sortedAudioFiles lc fs) = mset fs"
  by (simp add: sortedAudioFiles_def mset_js_sort)

lemma sortedAudioFiles_set: "set (sortedAudioFiles lc fs) = set fs"
  by (simp add: sortedAudioFiles_def set_js_sort)

lemma sortedAudioFiles_length: "length (sortedAudioFiles lc fs) = length fs"
  by (simp add: sortedAudioFiles_def length_js_sort)

lemma consistent_on_names:
  "consistent lc \<Longrightarrow> consistent (\<lambda>a b. lc (name a) (name b))"
  unfolding consistent_def by blast

lemma sortedAudioFiles_sorted:
  "consistent lc \<Longrightarrow>
   sorted_wrt (\<lambda>a b. lc (name a) (name b) \<le> 0) (sortedAudioFiles lc fs)"
  unfolding sortedAudioFiles_def
  using sorted_js_sort [OF consistent_on_names, of lc fs] by simp

lemma consistent_refl: "consistent cmp \<Longrightarrow> cmp a a \<le> 0"
  unfolding consistent_def by blast

lemma hd_sortedAudioFiles_least:
  assumes "consistent lc" and "g \<in> set fs"
  shows "lc (name (hd (sortedAudioFiles lc fs))) (name g) \<le> 0"
proof -
  let ?s = "sortedAudioFiles lc fs"
  have mem: "g \<in> set ?s" using assms(2) by (simp add: sortedAudioFiles_set)
  then obtain y ys where s: "?s = y # ys" by (cases ?s) auto
  have "sorted_wrt (\<lambda>a b. lc (name a) (name b) \<le> 0) (y # ys)"
    using sortedAudioFiles_sorted [OF assms(1), of fs] s by simp
  then have "\<forall>z\<in>set ys. lc (name y) (name z) \<le> 0" by simp
  moreover have "lc (name y) (name y) \<le> 0" using consistent_refl [OF assms(1)] .
  ultimately show ?thesis using mem s by auto
qed

lemma find_Some_mem: "find P xs = Some x \<Longrightarrow> x \<in> set xs"
  by (induction xs) (auto split: if_splits)

lemma byTrackNumber_mem:
  assumes "byTrackNumber lc fs fn = Some f"
  shows "f \<in> set fs"
proof -
  from assms obtain i where "i < length (sortedAudioFiles lc fs)"
    and "f = sortedAudioFiles lc fs ! i"
    by (auto simp: byTrackNumber_def js_index_def Let_def split: option.splits if_splits)
  then have "f \<in> set (sortedAudioFiles lc fs)" by simp
  then show ?thesis by (simp add: sortedAudioFiles_set)
qed

lemma exactMatch_mem: "exactMatch fs fn = Some f \<Longrightarrow> f \<in> set fs"
  unfolding exactMatch_def by (rule find_Some_mem)

lemma partialMatch_mem: "partialMatch fs fn = Some f \<Longrightarrow> f \<in> set fs"
  unfolding partialMatch_def by (rule find_Some_mem)

lemma fuzzyMatch_mem: "fuzzyMatch fs fn = Some f \<Longrightarrow> f \<in> set fs"
  unfolding fuzzyMatch_def Let_def by (rule find_Some_mem)

lemma orElse_Some: "orElse a b = Some x \<Longrightarrow> a = Some x \<or> (a = None \<and> b = Some x)"
  by (cases a) auto

lemma selectFile_mem:
  assumes "audioFiles \<noteq> []"
  shows "\<exists>f\<in>set audioFiles. selectFile lc audioFiles fileName = Some f"
proof -
  let ?s = "sortedAudioFiles lc audioFiles"
  have ne: "?s \<noteq> []"
    using assms sortedAudioFiles_length [of lc audioFiles] by (metis length_0_conv)
  have fb: "js_index ?s 0 = Some (hd ?s)" using ne by (rule js_index_0)
  have hdmem: "hd ?s \<in> set audioFiles"
    using ne sortedAudioFiles_set [of lc audioFiles] by (metis hd_in_set)
  have stages: "f \<in> set audioFiles"
    if "orElse (orElse (orElse (exactMatch audioFiles fn) (partialMatch audioFiles fn))
                 (byTrackNumber lc audioFiles fn)) (fuzzyMatch audioFiles fn) = Some f"
    for fn f
    using that exactMatch_mem partialMatch_mem byTrackNumber_mem fuzzyMatch_mem
    by (metis orElse_Some)
  show ?thesis
  proof (cases fileName)
    case None
    then show ?thesis using fb hdmem by (simp add: selectFile_def)
  next
    case (Some fn)
    show ?thesis
    proof (cases "fn = []")
      case True
      then show ?thesis using Some fb hdmem by (simp add: selectFile_def)
    next
      case False
      let ?t = "orElse (orElse (orElse (exactMatch audioFiles fn) (partialMatch audioFiles fn))
                 (byTrackNumber lc audioFiles fn)) (fuzzyMatch audioFiles fn)"
      show ?thesis
      proof (cases ?t)
        case None
        then show ?thesis using Some False fb hdmem by (simp add: selectFile_def)
      next
        case (Some f)
        then have "f \<in> set audioFiles" by (rule stages)
        then show ?thesis using Some \<open>fileName = Some fn\<close> False by (simp add: selectFile_def)
      qed
    qed
  qed
qed

section \<open>Properties of the File Selector\<close>

text \<open>
  When the hint matches nothing, every route selects the first file of the list sorted
  by name, which is least among all file names for a consistent \<^verbatim>\<open>localeCompare\<close>.
\<close>

lemma fallback_on_every_route:
  assumes "filter isAudioFile files \<noteq> []"
    and "\<not> fileCountMismatch expected (filter isAudioFile files)"
    and "matchesNothing lc (filter isAudioFile files) fileName"
  shows "streamTorrentInline lc files fileName expected
           = Inr (Some (hd (sortedAudioFiles lc (filter isAudioFile files)))) \<and>
         processStreamRequest lc files fileName expected
           = Inr (Some (hd (sortedAudioFiles lc (filter isAudioFile files)))) \<and>
         processStreamRequestAsync lc files fileName expected
           = Inr (Some (hd (sortedAudioFiles lc (filter isAudioFile files)))) \<and>
         (consistent lc \<longrightarrow>
            (\<forall>g\<in>set (filter isAudioFile files).
               lc (name (hd (sortedAudioFiles lc (filter isAudioFile files)))) (name g) \<le> 0))"
proof -
  let ?a = "filter isAudioFile files"
  let ?s = "sortedAudioFiles lc ?a"
  have ne: "?s \<noteq> []"
    using assms(1) sortedAudioFiles_length [of lc ?a] by (metis length_0_conv)
  have fb: "js_index ?s 0 = Some (hd ?s)" using ne by (rule js_index_0)
  have i: "streamTorrentInline lc files fileName expected = Inr (Some (hd ?s))"
    using assms fb
    by (auto simp: streamTorrentInline_def selectFile_def matchesNothing_def Let_def
        split: option.splits)
  have r: "processStreamRequest lc files fileName expected = Inr (Some (hd ?s))"
    using assms fb
    by (auto simp: processStreamRequest_def matchesNothing_def Let_def split: option.splits)
  have y: "processStreamRequestAsync lc files fileName expected = Inr (Some (hd ?s))"
    using assms fb
    by (auto simp: processStreamRequestAsync_def matchesNothing_def Let_def
        split: option.splits)
  have l: "consistent lc \<longrightarrow> (\<forall>g\<in>set ?a. lc (name (hd ?s)) (name g) \<le> 0)"
    using hd_sortedAudioFiles_least [of lc _ ?a] by blast
  show ?thesis using i r y l by (intro conjI)
qed

text \<open>
  C4 on the code. The selection is not a function of the file list and the hint alone:
  it depends on the route. For the files \<^verbatim>\<open>e.mp3, b.mp3, a.mp3, d.mp3, c.mp3\<close> and the hint
  \<^verbatim>\<open>9 - d\<close>, which only the fuzzy stage matches, a first request for a torrent that is
  not registered yet is answered by the handler's own body with \<^verbatim>\<open>d.mp3\<close>; it registers
  the torrent, and the identical second request, answered by \<^verbatim>\<open>processStreamRequest\<close>,
  gets \<^verbatim>\<open>a.mp3\<close>, as does the asynchronous helper.
\<close>

theorem streamTorrent_same_request_other_file:
  "fst (streamTorrent codeUnitCompare Map.empty ''magnet:?xt=urn:btih:abc''
          (Returns fiveFiles) (Some ''9 - d'') JUndefined)
     = Inr (Some \<lparr>name = ''d.mp3'', content = []\<rparr>) \<and>
   fst (streamTorrent codeUnitCompare
          (snd (streamTorrent codeUnitCompare Map.empty ''magnet:?xt=urn:btih:abc''
                  (Returns fiveFiles) (Some ''9 - d'') JUndefined))
          ''magnet:?xt=urn:btih:abc'' (Returns fiveFiles) (Some ''9 - d'') JUndefined)
     = Inr (Some \<lparr>name = ''a.mp3'', content = []\<rparr>) \<and>
   processStreamRequestAsync codeUnitCompare fiveFiles (Some ''9 - d'') JUndefined
     = Inr (Some \<lparr>name = ''a.mp3'', content = []\<rparr>) \<and>
   exactMatch fiveFiles ''9 - d'' = None \<and>
   partialMatch fiveFiles ''9 - d'' = None \<and>
   byTrackNumber codeUnitCompare fiveFiles ''9 - d'' = None \<and>
   fuzzyMatch fiveFiles ''9 - d'' = Some \<lparr>name = ''d.mp3'', content = []\<rparr>"
  by code_simp

text \<open>
  C5. When a track number \<open>N\<close> is extracted from the hint: if \<open>1 \<le> N \<le> count\<close>, the
  index \<open>N - 1\<close> is inside the sorted list and the track-number stage yields the \<open>N\<close>th
  sorted file (which is the selected file when the exact and the partial stage found
  nothing); if \<open>N\<close> is out of that range, the stage yields nothing and the selector goes
  on to the fuzzy stage and then to the fallback. The stage yields a file only for \<open>N\<close>
  in range.
\<close>

theorem trackNumber_selection_in_bounds:
  assumes "trackNumberMatch fn = Some digits"
  shows "(1 \<le> parseDigits digits \<and> parseDigits digits \<le> length audioFiles \<longrightarrow>
            parseDigits digits - 1 < length (sortedAudioFiles lc audioFiles) \<and>
            byTrackNumber lc audioFiles fn =
              Some (sortedAudioFiles lc audioFiles ! (parseDigits digits - 1)) \<and>
            (exactMatch audioFiles fn = None \<and> partialMatch audioFiles fn = None \<longrightarrow>
               selectFile lc audioFiles (Some fn) =
                 Some (sortedAudioFiles lc audioFiles ! (parseDigits digits - 1)))) \<and>
         (\<not> (1 \<le> parseDigits digits \<and> parseDigits digits \<le> length audioFiles) \<longrightarrow>
            byTrackNumber lc audioFiles fn = None \<and>
            (exactMatch audioFiles fn = None \<and> partialMatch audioFiles fn = None \<longrightarrow>
               selectFile lc audioFiles (Some fn) =
                 (case fuzzyMatch audioFiles fn of
                    Some f \<Rightarrow> Some f
                  | None \<Rightarrow> js_index (sortedAudioFiles lc audioFiles) 0))) \<and>
         (\<forall>f. byTrackNumber lc audioFiles fn = Some f \<longrightarrow>
            1 \<le> parseDigits digits \<and> parseDigits digits \<le> length audioFiles \<and>
            f \<in> set audioFiles)"
proof -
  let ?n = "parseDigits digits"
  let ?s = "sortedAudioFiles lc audioFiles"
  have len: "length ?s = length audioFiles" by (rule sortedAudioFiles_length)
  have fn_ne: "fn \<noteq> []" using assms by auto
  have inr: "byTrackNumber lc audioFiles fn = Some (?s ! (?n - 1))" and idx: "?n - 1 < length ?s"
    if "1 \<le> ?n \<and> ?n \<le> length audioFiles"
    using that assms len by (auto simp: byTrackNumber_def js_index_def Let_def)
  have outr: "byTrackNumber lc audioFiles fn = None"
    if "\<not> (1 \<le> ?n \<and> ?n \<le> length audioFiles)"
    using that assms len by (auto simp: byTrackNumber_def Let_def)
  have sel_in: "selectFile lc audioFiles (Some fn) = Some (?s ! (?n - 1))"
    if "1 \<le> ?n \<and> ?n \<le> length audioFiles"
      and "exactMatch audioFiles fn = None \<and> partialMatch audioFiles fn = None"
    using that inr fn_ne by (simp add: selectFile_def)
  have sel_out: "selectFile lc audioFiles (Some fn) =
      (case fuzzyMatch audioFiles fn of Some f \<Rightarrow> Some f
       | None \<Rightarrow> js_index ?s 0)"
    if "\<not> (1 \<le> ?n \<and> ?n \<le> length audioFiles)"
      and "exactMatch audioFiles fn = None \<and> partialMatch audioFiles fn = None"
    using that outr fn_ne by (simp add: selectFile_def)
  have only: "1 \<le> ?n \<and> ?n \<le> length audioFiles \<and> f \<in> set audioFiles"
    if "byTrackNumber lc audioFiles fn = Some f" for f
    using that outr byTrackNumber_mem [OF that] by (cases "1 \<le> ?n \<and> ?n \<le> length audioFiles") auto
  show ?thesis using inr idx outr sel_in sel_out only by blast
qed

theorem trackNumber_selection_in_bounds_witness:
  "trackNumberMatch ''Track 3'' = Some ''3'' \<and> parseDigits ''3'' = 3 \<and> length fiveFiles = 5 \<and>
   exactMatch fiveFiles ''Track 3'' = None \<and> partialMatch fiveFiles ''Track 3'' = None \<and>
   selectFile codeUnitCompare fiveFiles (Some ''Track 3'') = Some \<lparr>name = ''c.mp3'', content = []\<rparr> \<and>
   trackNumberMatch ''Track 9'' = Some ''9'' \<and> parseDigits ''9'' = 9 \<and>
   exactMatch fiveFiles ''Track 9'' = None \<and> partialMatch fiveFiles ''Track 9'' = None \<and>
   byTrackNumber codeUnitCompare fiveFiles ''Track 9'' = None \<and>
   selectFile codeUnitCompare fiveFiles (Some ''Track 9'') = Some \<lparr>name = ''a.mp3'', content = []\<rparr>"
proof -
  have m3: "trackNumberMatch ''Track 3'' = Some ''3''" by code_simp
  have m9: "trackNumberMatch ''Track 9'' = Some ''9''" by code_simp
  have p3: "parseDigits ''3'' = 3" by code_simp
  have p9: "parseDigits ''9'' = 9" by code_simp
  have l5: "length fiveFiles = 5" by code_simp
  have e3: "exactMatch fiveFiles ''Track 3'' = None" by code_simp
  have e9: "exactMatch fiveFiles ''Track 9'' = None" by code_simp
  have q3: "partialMatch fiveFiles ''Track 3'' = None" by code_simp
  have q9: "partialMatch fiveFiles ''Track 9'' = None" by code_simp
  have s3: "sortedAudioFiles codeUnitCompare fiveFiles ! 2 = \<lparr>name = ''c.mp3'', content = []\<rparr>"
    by code_simp
  have f9: "(case fuzzyMatch fiveFiles ''Track 9'' of Some f \<Rightarrow> Some f
             | None \<Rightarrow> js_index (sortedAudioFiles codeUnitCompare fiveFiles) 0)
            = Some \<lparr>name = ''a.mp3'', content = []\<rparr>"
    by code_simp
  show ?thesis
    using trackNumber_selection_in_bounds [OF m3, of fiveFiles codeUnitCompare]
      trackNumber_selection_in_bounds [OF m9, of fiveFiles codeUnitCompare]
      m3 m9 p3 p9 l5 e3 e9 q3 q9 s3 f9
    by simp
qed

section \<open>Properties of the file-count validation\<close>

text \<open>
  C10. An expected file count of 0 is falsy, so the file-count validation is skipped:
  the guard itself is false, and no route of the stream preparation (the handler with its
  own body or with \<^verbatim>\<open>processStreamRequest\<close>, and the asynchronous helper) reports a
  file-count mismatch, whatever the number of eligible audio files.
\<close>

theorem expectedFileCount_zero_skips_validation:
  "\<not> fileCountMismatch (JNumber 0) audioFiles \<and>
   streamTorrentInline lc files fileName (JNumber 0) \<noteq> Inl (FileCountMismatch v n) \<and>
   processStreamRequest lc files fileName (JNumber 0) \<noteq> Inl (FileCountMismatch v n) \<and>
   fst (streamTorrent lc registry link loaded fileName (JNumber 0))
     \<noteq> Inl (FileCountMismatch v n) \<and>
   processStreamRequestAsync lc files fileName (JNumber 0) \<noteq> Inl (FileCountMismatch v n)"
  by (simp add: fileCountMismatch_def streamTorrentInline_def processStreamRequest_def
      streamTorrent_def processStreamRequestAsync_def Let_def
      split: option.splits outcome.splits)

section \<open>Properties of the Magnet Resolver\<close>

lemma matchMagnet_prefix: "matchMagnet s = Some m \<Longrightarrow> startsWith m ''magnet:''"
  by (induction s) (auto simp: Let_def startsWith_def split: if_splits)

lemma resolveMagnetUrl_try_result:
  "resolveMagnetUrl_try net u = Inr r \<Longrightarrow> r = u \<or> startsWith r ''magnet:''"
  by (auto simp: resolveMagnetUrl_try_def split: if_splits sum.splits option.splits
      response_data.splits dest: matchMagnet_prefix)

text \<open>
  C3. \<^verbatim>\<open>resolveMagnetUrl\<close> returns a string for every input string and every behaviour of
  the network: an input with the magnet prefix is returned unchanged (so resolving a
  resolved identifier again changes nothing); when the request fails, the input is
  returned; when the response holds no magnet identifier, the input is returned; and
  every result is the input itself or starts with the magnet prefix.
\<close>

theorem resolveMagnetUrl_never_throws:
  "(startsWith downloadUrl ''magnet:'' \<longrightarrow> resolveMagnetUrl net downloadUrl = downloadUrl) \<and>
   ((\<exists>e. axiosGet net downloadUrl = Inl e) \<longrightarrow> resolveMagnetUrl net downloadUrl = downloadUrl) \<and>
   ((\<exists>response. axiosGet net downloadUrl = Inr response \<and> noMagnetIn response) \<longrightarrow>
      resolveMagnetUrl net downloadUrl = downloadUrl) \<and>
   (resolveMagnetUrl net downloadUrl = downloadUrl \<or>
    startsWith (resolveMagnetUrl net downloadUrl) ''magnet:'') \<and>
   (startsWith (resolveMagnetUrl net downloadUrl) ''magnet:'' \<longrightarrow>
      resolveMagnetUrl net' (resolveMagnetUrl net downloadUrl) = resolveMagnetUrl net downloadUrl)"
proof -
  have a: "resolveMagnetUrl n u = u" if "startsWith u ''magnet:''" for n u
    using that by (simp add: resolveMagnetUrl_def resolveMagnetUrl_try_def)
  have b: "resolveMagnetUrl net downloadUrl = downloadUrl"
    if "axiosGet net downloadUrl = Inl e" for e
    using that by (simp add: resolveMagnetUrl_def resolveMagnetUrl_try_def)
  have c: "resolveMagnetUrl net downloadUrl = downloadUrl"
    if "axiosGet net downloadUrl = Inr response" and "noMagnetIn response" for response
    using that
    by (auto simp: resolveMagnetUrl_def resolveMagnetUrl_try_def noMagnetIn_def
        split: option.splits response_data.splits)
  have d: "resolveMagnetUrl n u = u \<or> startsWith (resolveMagnetUrl n u) ''magnet:''" for n u
    using resolveMagnetUrl_try_result [of n u]
    by (auto simp: resolveMagnetUrl_def split: sum.splits)
  have e: "startsWith (resolveMagnetUrl net downloadUrl) ''magnet:'' \<longrightarrow>
      resolveMagnetUrl net' (resolveMagnetUrl net downloadUrl) = resolveMagnetUrl net downloadUrl"
    using a [of "resolveMagnetUrl net downloadUrl" net'] by simp
  have a': "startsWith downloadUrl ''magnet:'' \<longrightarrow> resolveMagnetUrl net downloadUrl = downloadUrl"
    using a [of downloadUrl net] by simp
  have b': "(\<exists>e. axiosGet net downloadUrl = Inl e) \<longrightarrow>
      resolveMagnetUrl net downloadUrl = downloadUrl"
    using b by auto
  have c': "(\<exists>response. axiosGet net downloadUrl = Inr response \<and> noMagnetIn response) \<longrightarrow>
      resolveMagnetUrl net downloadUrl = downloadUrl"
    using c by auto
  show ?thesis using a' b' c' d [of net downloadUrl] e by (intro conjI)
qed

theorem resolveMagnetUrl_never_throws_witness:
  "startsWith ''magnet:?xt=urn:btih:abc'' ''magnet:'' \<and>
   resolveMagnetUrl deadNetwork ''magnet:?xt=urn:btih:abc'' = ''magnet:?xt=urn:btih:abc'' \<and>
   axiosGet deadNetwork ''http://localhost:9696/1/download'' = Inl ''connect ECONNREFUSED'' \<and>
   resolveMagnetUrl deadNetwork ''http://localhost:9696/1/download''
     = ''http://localhost:9696/1/download'' \<and>
   axiosGet (pageNetwork ''no link here'') ''http://localhost:9696/1/download''
     = Inr \<lparr>http_status = 200, location = None, rdata = TextData ''no link here''\<rparr> \<and>
   noMagnetIn \<lparr>http_status = 200, location = None, rdata = TextData ''no link here''\<rparr> \<and>
   resolveMagnetUrl (pageNetwork ''no link here'') ''http://localhost:9696/1/download''
     = ''http://localhost:9696/1/download''"
proof -
  have p: "startsWith ''magnet:?xt=urn:btih:abc'' ''magnet:''" by code_simp
  have d: "axiosGet deadNetwork ''http://localhost:9696/1/download'' = Inl ''connect ECONNREFUSED''"
    by code_simp
  have g: "axiosGet (pageNetwork ''no link here'') ''http://localhost:9696/1/download''
     = Inr \<lparr>http_status = 200, location = None, rdata = TextData ''no link here''\<rparr>"
    by code_simp
  have n: "noMagnetIn \<lparr>http_status = 200, location = None, rdata = TextData ''no link here''\<rparr>"
    by code_simp
  have r1: "resolveMagnetUrl deadNetwork ''magnet:?xt=urn:btih:abc'' = ''magnet:?xt=urn:btih:abc''"
    using resolveMagnetUrl_never_throws
        [of "''magnet:?xt=urn:btih:abc''" deadNetwork, THEN conjunct1] p
    by (rule mp)
  have "\<exists>e. axiosGet deadNetwork ''http://localhost:9696/1/download'' = Inl e"
    using d by (rule exI)
  with resolveMagnetUrl_never_throws
      [of "''http://localhost:9696/1/download''" deadNetwork, THEN conjunct2, THEN conjunct1]
  have r2: "resolveMagnetUrl deadNetwork ''http://localhost:9696/1/download''
     = ''http://localhost:9696/1/download''"
    by (rule mp)
  have "\<exists>response. axiosGet (pageNetwork ''no link here'') ''http://localhost:9696/1/download''
          = Inr response \<and> noMagnetIn response"
    using g n by (intro exI conjI)
  with resolveMagnetUrl_never_throws
      [of "''http://localhost:9696/1/download''" "pageNetwork ''no link here''",
       THEN conjunct2, THEN conjunct2, THEN conjunct1]
  have r3: "resolveMagnetUrl (pageNetwork ''no link here'') ''http://localhost:9696/1/download''
     = ''http://localhost:9696/1/download''"
    by (rule mp)
  show ?thesis using p d g n r1 r2 r3 by (intro conjI)
qed

section \<open>Properties of the Ranking Engine\<close>

lemma byScoreDesc_consistent: "consistent byScoreDesc"
  by (auto simp: consistent_def byScoreDesc_def)

lemma sorted_byScoreDesc:
  "sorted_wrt (\<lambda>a b. score a \<ge> score b) (js_sort byScoreDesc xs)"
  using sorted_js_sort [OF byScoreDesc_consistent, of xs] by (simp add: byScoreDesc_def)

lemma scorePrecise_seeders:
  "seeders (scorePrecise now tt an al t) = Some (orZero (seeders t))"
  by (simp add: scorePrecise_def)

text \<open>
  C2. The precise ranking returns a list sorted non-increasing by score. Every element of
  it has a score above 0 and is the scored form of a candidate with at least one seeder
  that was published no later than two days before \<open>now\<close>; every such candidate whose
  score is above 0 is in the result (the result is a permutation of the scored
  survivors); and when no candidate survives, the result is empty.
\<close>

theorem rankPrecise_filtered_sorted:
  "sorted_wrt (\<lambda>a b. score a \<ge> score b) (rankPrecise now tt an al cands) \<and>
   (\<forall>r\<in>set (rankPrecise now tt an al cands).
      score r > 0 \<and>
      (\<exists>t\<in>set cands. r = scorePrecise now tt an al t \<and> orZero (seeders t) > 0 \<and>
         (\<exists>p. publishDate t = Some p \<and> p \<le> now - 2 * dayMs))) \<and>
   (\<forall>t\<in>set cands.
      orZero (seeders t) > 0 \<and> isOldEnough now t \<and> score (scorePrecise now tt an al t) > 0
      \<longrightarrow> scorePrecise now tt an al t \<in> set (rankPrecise now tt an al cands)) \<and>
   mset (rankPrecise now tt an al cands) =
     mset (filter (\<lambda>r. score r > 0)
        (map (scorePrecise now tt an al)
           (filter (\<lambda>t. isOldEnough now t \<and> hasActiveSeeder t) cands))) \<and>
   ((\<forall>t\<in>set cands. \<not> (isOldEnough now t \<and> hasActiveSeeder t \<and>
                          score (scorePrecise now tt an al t) > 0))
      \<longrightarrow> rankPrecise now tt an al cands = [])"
proof -
  let ?out = "rankPrecise now tt an al cands"
  let ?surv = "filter (\<lambda>r. score r > 0)
        (map (scorePrecise now tt an al)
           (filter (\<lambda>t. isOldEnough now t \<and> hasActiveSeeder t) cands))"
  have out: "?out = js_sort byScoreDesc ?surv" by (simp add: rankPrecise_def)
  have s: "sorted_wrt (\<lambda>a b. score a \<ge> score b) ?out"
    unfolding out by (rule sorted_byScoreDesc)
  have m: "mset ?out = mset ?surv" unfolding out by (rule mset_js_sort)
  have st: "set ?out = set ?surv" unfolding out by (rule set_js_sort)
  have a: "\<forall>r\<in>set ?out. score r > 0 \<and>
      (\<exists>t\<in>set cands. r = scorePrecise now tt an al t \<and> orZero (seeders t) > 0 \<and>
         (\<exists>p. publishDate t = Some p \<and> p \<le> now - 2 * dayMs))"
    unfolding st
    by (auto simp: isOldEnough_def hasActiveSeeder_def split: option.splits)
  have b: "\<forall>t\<in>set cands.
      orZero (seeders t) > 0 \<and> isOldEnough now t \<and> score (scorePrecise now tt an al t) > 0
      \<longrightarrow> scorePrecise now tt an al t \<in> set ?out"
    unfolding st by (auto simp: hasActiveSeeder_def)
  have c: "(\<forall>t\<in>set cands. \<not> (isOldEnough now t \<and> hasActiveSeeder t \<and>
                          score (scorePrecise now tt an al t) > 0)) \<longrightarrow> ?out = []"
  proof
    assume none: "\<forall>t\<in>set cands. \<not> (isOldEnough now t \<and> hasActiveSeeder t \<and>
                          score (scorePrecise now tt an al t) > 0)"
    then have "set ?surv = {}" by auto
    then have "set ?out = {}" using st by simp
    then show "?out = []" by simp
  qed
  show ?thesis using s a b m c by (intro conjI)
qed

theorem rankPrecise_filtered_sorted_witness:
  "flacCandidate \<in> set [flacCandidate, freshCandidate] \<and>
   orZero (seeders flacCandidate) > 0 \<and>
   isOldEnough (40 * dayMs) flacCandidate \<and>
   score (scorePrecise (40 * dayMs) ''Song'' ''Artist'' None flacCandidate) = 2350 \<and>
   scorePrecise (40 * dayMs) ''Song'' ''Artist'' None flacCandidate
     \<in> set (rankPrecise (40 * dayMs) ''Song'' ''Artist'' None [flacCandidate, freshCandidate]) \<and>
   rankPrecise (40 * dayMs) ''Song'' ''Artist'' None [flacCandidate, freshCandidate]
     = [scorePrecise (40 * dayMs) ''Song'' ''Artist'' None flacCandidate] \<and>
   \<not> hasActiveSeeder freshCandidate \<and>
   rankPrecise (40 * dayMs) ''Song'' ''Artist'' None [freshCandidate] = []"
proof -
  let ?now = "40 * dayMs"
  have i: "flacCandidate \<in> set [flacCandidate, freshCandidate]" by simp
  have sd: "orZero (seeders flacCandidate) > 0" by code_simp
  have old: "isOldEnough ?now flacCandidate" by code_simp
  have sc: "score (scorePrecise ?now ''Song'' ''Artist'' None flacCandidate) = 2350"
    by code_simp
  have r: "rankPrecise ?now ''Song'' ''Artist'' None [flacCandidate, freshCandidate]
     = [scorePrecise ?now ''Song'' ''Artist'' None flacCandidate]"
    by code_simp
  have dead: "\<not> hasActiveSeeder freshCandidate" by code_simp
  have pre: "orZero (seeders flacCandidate) > 0 \<and> isOldEnough ?now flacCandidate \<and>
      score (scorePrecise ?now ''Song'' ''Artist'' None flacCandidate) > 0"
    using sd old sc by simp
  have mem: "scorePrecise ?now ''Song'' ''Artist'' None flacCandidate
     \<in> set (rankPrecise ?now ''Song'' ''Artist'' None [flacCandidate, freshCandidate])"
    using rankPrecise_filtered_sorted
      [of ?now "''Song''" "''Artist''" None "[flacCandidate, freshCandidate]",
       THEN conjunct2, THEN conjunct2, THEN conjunct1, THEN bspec, OF i] pre
    by (rule mp)
  have none: "\<forall>t\<in>set [freshCandidate]. \<not> (isOldEnough ?now t \<and> hasActiveSeeder t \<and>
                  score (scorePrecise ?now ''Song'' ''Artist'' None t) > 0)"
    using dead by simp
  have e: "rankPrecise ?now ''Song'' ''Artist'' None [freshCandidate] = []"
    using rankPrecise_filtered_sorted
      [of ?now "''Song''" "''Artist''" None "[freshCandidate]",
       THEN conjunct2, THEN conjunct2, THEN conjunct2, THEN conjunct2] none
    by (rule mp)
  show ?thesis using i sd old sc mem r dead e by (intro conjI)
qed

section \<open>Properties of the Album Pre-loader\<close>

lemma foldl_preloadWordScore:
  "foldl (preloadWordScore t tw) acc ws =
     acc + 15 * int (length (filter (\<lambda>w. length w > 2 \<and> includes_str t w) ws))
         + 10 * int (length (filter (\<lambda>w. length w > 2 \<and> includes_str t w \<and> w \<in> set tw) ws))"
  by (induction ws arbitrary: acc) (auto simp: preloadWordScore_def)

lemma foldl_lightWords:
  "foldl (\<lambda>score word. if includes_str t word then score + 15 else score) acc ws =
     acc + 15 * int (length (filter (includes_str t) ws))"
  by (induction ws arbitrary: acc) auto

lemma lightScore_is_specLightScore:
  "lightScore artistName trackTitle albumTitle torrent =
     specLightScore (artistName @ '' '' @ trackTitle @ '' '' @ orEmpty albumTitle) torrent"
  by (simp add: lightScore_def specLightScore_def Let_def foldl_lightWords conj_commute)

lemma preloadSizeScore_bounds: "0 \<le> preloadSizeScore sz \<and> preloadSizeScore sz \<le> 10"
  by (simp add: preloadSizeScore_def Let_def)

lemma preloadAgeScore_bounds: "0 \<le> preloadAgeScore now t \<and> preloadAgeScore now t \<le> 5"
  by (simp add: preloadAgeScore_def Let_def split: option.splits)

lemma preloadScore_decomposition:
  "preloadScore now q t =
     specLightScore q t + exactWordBonus q t + preloadSizeScore (orZero (size_f t))
       + preloadAgeScore now t"
  by (simp add: preloadScore_def specLightScore_def exactWordBonus_def Let_def
      foldl_preloadWordScore)

lemma preloadAlbumTorrents_eq:
  "preloadAlbumTorrents now q found =
     take 20 (js_sort byScoreDesc
        (map (\<lambda>t. withScore t (preloadScore now q t))
           (filter (\<lambda>t. orZero (seeders t) > 0) found)))"
  by (simp add: preloadAlbumTorrents_def Let_def js_sort_def)

text \<open>
  C8, as the code has it. The pre-loader scores a candidate with the terms of the light
  variant (the seeder step bonus and 15 points per query word longer than two characters
  found in the title) plus three further bonuses, none of them negative: 10 points for
  each such word that is also a whole word of the title, up to 10 points for the size and
  up to 5 points for the age. The result holds scored candidates with seeders above 0
  only, sorted non-increasing by that score, cut to the first 20.
\<close>

theorem preloadScore_light_plus_bonuses:
  "preloadScore now q t =
     specLightScore q t + exactWordBonus q t + preloadSizeScore (orZero (size_f t))
       + preloadAgeScore now t \<and>
   0 \<le> exactWordBonus q t \<and>
   0 \<le> preloadSizeScore (orZero (size_f t)) \<and> preloadSizeScore (orZero (size_f t)) \<le> 10 \<and>
   0 \<le> preloadAgeScore now t \<and> preloadAgeScore now t \<le> 5 \<and>
   specLightScore q t \<le> preloadScore now q t \<and>
   preloadAlbumTorrents now q found =
     take 20 (js_sort byScoreDesc
        (map (\<lambda>t. withScore t (preloadScore now q t))
           (filter (\<lambda>t. orZero (seeders t) > 0) found))) \<and>
   length (preloadAlbumTorrents now q found) \<le> 20 \<and>
   sorted_wrt (\<lambda>a b. score a \<ge> score b) (preloadAlbumTorrents now q found) \<and>
   (\<forall>r\<in>set (preloadAlbumTorrents now q found).
      \<exists>c\<in>set found. orZero (seeders c) > 0 \<and> r = withScore c (preloadScore now q c))"
proof -
  have d: "preloadScore now q t =
     specLightScore q t + exactWordBonus q t + preloadSizeScore (orZero (size_f t))
       + preloadAgeScore now t"
    by (rule preloadScore_decomposition)
  have e: "0 \<le> exactWordBonus q t" by (simp add: exactWordBonus_def)
  note sb = preloadSizeScore_bounds [of "orZero (size_f t)"]
  note ab = preloadAgeScore_bounds [of now t]
  have le: "specLightScore q t \<le> preloadScore now q t" using d e sb ab by linarith
  have eq: "preloadAlbumTorrents now q found =
     take 20 (js_sort byScoreDesc
        (map (\<lambda>t. withScore t (preloadScore now q t))
           (filter (\<lambda>t. orZero (seeders t) > 0) found)))"
    by (rule preloadAlbumTorrents_eq)
  have len: "length (preloadAlbumTorrents now q found) \<le> 20" unfolding eq by simp
  have srt: "sorted_wrt (\<lambda>a b. score a \<ge> score b) (preloadAlbumTorrents now q found)"
    unfolding eq using sorted_byScoreDesc by (rule sorted_wrt_take)
  have mem: "\<forall>r\<in>set (preloadAlbumTorrents now q found).
      \<exists>c\<in>set found. orZero (seeders c) > 0 \<and> r = withScore c (preloadScore now q c)"
  proof
    fix r assume "r \<in> set (preloadAlbumTorrents now q found)"
    then have "r \<in> set (js_sort byScoreDesc
        (map (\<lambda>t. withScore t (preloadScore now q t))
           (filter (\<lambda>t. orZero (seeders t) > 0) found)))"
      unfolding eq by (rule in_set_takeD)
    then show "\<exists>c\<in>set found. orZero (seeders c) > 0 \<and> r = withScore c (preloadScore now q c)"
      by (auto simp: set_js_sort)
  qed
  show ?thesis using d e sb ab le eq len srt mem by (intro conjI) simp_all
qed

theorem preloadScore_light_plus_bonuses_witness:
  "albumCandidate \<in> set (filter (\<lambda>t. orZero (seeders t) > 0) [flacCandidate, albumCandidate]) \<and>
   preloadScore (10 * dayMs) ''Artist Album'' albumCandidate = 130 + 20 + 10 + 5 \<and>
   specLightScore ''Artist Album'' albumCandidate = 130 \<and>
   exactWordBonus ''Artist Album'' albumCandidate = 20 \<and>
   preloadSizeScore (orZero (size_f albumCandidate)) = 10 \<and>
   preloadAgeScore (10 * dayMs) albumCandidate = 5 \<and>
   map score (preloadAlbumTorrents (10 * dayMs) ''Artist Album'' [flacCandidate, albumCandidate])
     = [165, 110]"
proof -
  have a: "specLightScore ''Artist Album'' albumCandidate = 130" by code_simp
  have b: "exactWordBonus ''Artist Album'' albumCandidate = 20" by code_simp
  have c: "preloadSizeScore (orZero (size_f albumCandidate)) = 10" by code_simp
  have d: "preloadAgeScore (10 * dayMs) albumCandidate = 5" by code_simp
  have f: "albumCandidate \<in> set (filter (\<lambda>t. orZero (seeders t) > 0)
             [flacCandidate, albumCandidate])"
    by code_simp
  have s: "map score (take 20 (js_sort byScoreDesc
        (map (\<lambda>t. withScore t (preloadScore (10 * dayMs) ''Artist Album'' t))
           (filter (\<lambda>t. orZero (seeders t) > 0) [flacCandidate, albumCandidate]))))
     = [165, 110]"
    by code_simp
  show ?thesis
    using preloadScore_light_plus_bonuses
      [of "10 * dayMs" "''Artist Album''" albumCandidate "[flacCandidate, albumCandidate]"]
      a b c d f s
    by simp
qed

text \<open>
  C8 as stated fails: for a candidate with 60 seeders whose title holds both query
  words as whole words, the pre-loader's score is 165, while the light variant (the
  specification's, and \<^verbatim>\<open>scoreAndFilterTorrents\<close> of the source) gives 130.
\<close>

theorem preloadScore_not_light_counterexample:
  "orZero (seeders albumCandidate) > 0 \<and>
   preloadScore (10 * dayMs) ''Artist Album'' albumCandidate = 165 \<and>
   specLightScore ''Artist Album'' albumCandidate = 130 \<and>
   lightScore ''Artist'' ''Album'' None albumCandidate = 130 \<and>
   preloadScore (10 * dayMs) ''Artist Album'' albumCandidate
     \<noteq> specLightScore ''Artist Album'' albumCandidate"
  by code_simp

section \<open>Properties of the Job Orchestrator\<close>

lemma processTorrentSearchAsync_lifecycle:
  "lifecycle (acceptFindBestTorrent t0 #
     processTorrentSearchAsync (acceptFindBestTorrent t0) an tt al found now)"
  by (cases "scoreAndFilterFound found an tt al")
     (simp_all add: lifecycle_def processTorrentSearchAsync_def acceptFindBestTorrent_def
       acceptJob_def failJob_def Let_def)

lemma processTorrentSearchAsync_throws:
  "scoreAndFilterFound found an tt al = Throws message \<Longrightarrow>
   last (processTorrentSearchAsync job an tt al found now)
     = failJob (job\<lparr>status := Processing, progress := 70\<rparr>) message now"
  by (simp add: processTorrentSearchAsync_def Let_def)

lemma processTorrentSearchAsync_returns:
  "scoreAndFilterFound found an tt al = Returns scored \<Longrightarrow>
   status (last (processTorrentSearchAsync job an tt al found now)) = Completed \<and>
   result (last (processTorrentSearchAsync job an tt al found now)) \<noteq> None \<and>
   error (last (processTorrentSearchAsync job an tt al found now)) = error job"
  by (simp add: processTorrentSearchAsync_def Let_def)

lemma processStreamRequestAsync_has_file:
  "processStreamRequestAsync lc files fn expected \<noteq> Inr None"
proof -
  let ?a = "filter isAudioFile files"
  let ?s = "sortedAudioFiles lc ?a"
  show ?thesis
  proof (cases "?a = []")
    case True
    then show ?thesis by (simp add: processStreamRequestAsync_def)
  next
    case False
    then have "?s \<noteq> []"
      using sortedAudioFiles_length [of lc ?a] by (metis length_0_conv)
    then have "js_index ?s 0 = Some (hd ?s)" by (rule js_index_0)
    then show ?thesis
      by (auto simp: processStreamRequestAsync_def Let_def split: option.splits if_splits)
  qed
qed

lemma finishStream_nonempty: "finishStream lc current files fn expected now \<noteq> []"
  by (simp add: finishStream_def Let_def split: sum.splits option.splits)

lemma finishStream_thrown:
  "processStreamRequestAsync lc files fn expected = Inl thrown \<Longrightarrow>
   last (finishStream lc current files fn expected now)
     = failJob (current\<lparr>progress := 80\<rparr>) (errorMessage thrown) now"
  by (simp add: finishStream_def Let_def)

lemma finishStream_file:
  "processStreamRequestAsync lc files fn expected = Inr (Some targetFile) \<Longrightarrow>
   last (finishStream lc current files fn expected now)
     = current\<lparr>progress := 80, status := Completed, progress := 100, completedAt := Some now,
         result := Some (StreamInfo targetFile (file_length targetFile))\<rparr>"
  by (simp add: finishStream_def Let_def)

lemma processTorrentStreamAsync_finish:
  assumes "registered = Some files \<or> (registered = None \<and> added = Returns files)"
  shows "\<exists>current. error current = error job \<and> result current = result job \<and>
           last (processTorrentStreamAsync lc job registered added fn expected now)
             = last (finishStream lc current files fn expected now)"
proof -
  let ?j1 = "job\<lparr>status := Processing, progress := 10\<rparr>"
  let ?j2 = "?j1\<lparr>progress := 20\<rparr>"
  from assms show ?thesis
  proof
    assume r: "registered = Some files"
    have "last (processTorrentStreamAsync lc job registered added fn expected now)
            = last (finishStream lc ?j1 files fn expected now)"
      using r finishStream_nonempty [of lc ?j1 files fn expected now]
      by (simp add: processTorrentStreamAsync_def Let_def)
    moreover have "error ?j1 = error job \<and> result ?j1 = result job" by simp
    ultimately show ?thesis by blast
  next
    assume r: "registered = None \<and> added = Returns files"
    have "last (processTorrentStreamAsync lc job registered added fn expected now)
            = last (finishStream lc ?j2 files fn expected now)"
      using r finishStream_nonempty [of lc ?j2 files fn expected now]
      by (simp add: processTorrentStreamAsync_def Let_def)
    moreover have "error ?j2 = error job \<and> result ?j2 = result job" by simp
    ultimately show ?thesis by blast
  qed
qed

lemma processTorrentStreamAsync_lifecycle:
  "lifecycle (acceptStreamTorrent t0 #
     processTorrentStreamAsync lc (acceptStreamTorrent t0) registered added fn expected now)"
  by (cases registered; cases added)
     (simp_all add: lifecycle_def processTorrentStreamAsync_def finishStream_def
       acceptStreamTorrent_def acceptJob_def failJob_def Let_def
       split: sum.splits option.splits)

lemma processTorrentStreamAsync_throws:
  "last (processTorrentStreamAsync lc job None (Throws message) fn expected now)
     = failJob (job\<lparr>status := Processing, progress := 20\<rparr>) message now"
  by (simp add: processTorrentStreamAsync_def Let_def)

text \<open>
  C6. A job created by either accept path starts pending with progress 0; the background
  task then moves it to processing and to exactly one terminal status, the last entry,
  with progress 100, and the progress never decreases on the way. Every error thrown
  inside a task ends the history with status failed and that error's message recorded,
  and with no result added: the type error of the scoring in the search task, the
  rejected torrent in the stream task, and the errors that the stream helper throws (no
  audio files, file count mismatch), for a registered torrent as for an added one. A
  task in which nothing is thrown ends completed with its result and no error added;
  the stream helper never ends without a file.
\<close>

theorem asyncJob_lifecycle:
  "lifecycle (acceptFindBestTorrent t0 #
     processTorrentSearchAsync (acceptFindBestTorrent t0) an tt al found now) \<and>
   lifecycle (acceptStreamTorrent t0 #
     processTorrentStreamAsync lc (acceptStreamTorrent t0) registered added fn expected now) \<and>
   (scoreAndFilterFound found an tt al = Throws message \<longrightarrow>
      status (last (processTorrentSearchAsync job an tt al found now)) = Failed \<and>
      error (last (processTorrentSearchAsync job an tt al found now)) = Some message \<and>
      result (last (processTorrentSearchAsync job an tt al found now)) = result job) \<and>
   (scoreAndFilterFound found an tt al = Returns scored \<longrightarrow>
      status (last (processTorrentSearchAsync job an tt al found now)) = Completed \<and>
      result (last (processTorrentSearchAsync job an tt al found now)) \<noteq> None \<and>
      error (last (processTorrentSearchAsync job an tt al found now)) = error job) \<and>
   (registered = None \<and> added = Throws message \<longrightarrow>
      status (last (processTorrentStreamAsync lc job registered added fn expected now))
        = Failed \<and>
      error (last (processTorrentStreamAsync lc job registered added fn expected now))
        = Some message \<and>
      result (last (processTorrentStreamAsync lc job registered added fn expected now))
        = result job) \<and>
   ((registered = Some files \<or> (registered = None \<and> added = Returns files)) \<and>
    processStreamRequestAsync lc files fn expected = Inl thrown \<longrightarrow>
      status (last (processTorrentStreamAsync lc job registered added fn expected now))
        = Failed \<and>
      error (last (processTorrentStreamAsync lc job registered added fn expected now))
        = Some (errorMessage thrown) \<and>
      result (last (processTorrentStreamAsync lc job registered added fn expected now))
        = result job) \<and>
   ((registered = Some files \<or> (registered = None \<and> added = Returns files)) \<and>
    processStreamRequestAsync lc files fn expected = Inr (Some targetFile) \<longrightarrow>
      status (last (processTorrentStreamAsync lc job registered added fn expected now))
        = Completed \<and>
      result (last (processTorrentStreamAsync lc job registered added fn expected now))
        = Some (StreamInfo targetFile (file_length targetFile)) \<and>
      error (last (processTorrentStreamAsync lc job registered added fn expected now))
        = error job) \<and>
   processStreamRequestAsync lc files fn expected \<noteq> Inr None"
proof -
  let ?search = "processTorrentSearchAsync job an tt al found now"
  let ?stream = "processTorrentStreamAsync lc job registered added fn expected now"
  have c3: "scoreAndFilterFound found an tt al = Throws message \<longrightarrow>
      status (last ?search) = Failed \<and> error (last ?search) = Some message \<and>
      result (last ?search) = result job"
    using processTorrentSearchAsync_throws [of found an tt al message job now]
    by (simp add: failJob_def)
  have c4: "scoreAndFilterFound found an tt al = Returns scored \<longrightarrow>
      status (last ?search) = Completed \<and> result (last ?search) \<noteq> None \<and>
      error (last ?search) = error job"
    using processTorrentSearchAsync_returns [of found an tt al scored job now] by blast
  have c5: "registered = None \<and> added = Throws message \<longrightarrow>
      status (last ?stream) = Failed \<and> error (last ?stream) = Some message \<and>
      result (last ?stream) = result job"
    using processTorrentStreamAsync_throws [of lc job message fn expected now]
    by (auto simp: failJob_def)
  have c6: "(registered = Some files \<or> (registered = None \<and> added = Returns files)) \<and>
      processStreamRequestAsync lc files fn expected = Inl thrown \<longrightarrow>
      status (last ?stream) = Failed \<and> error (last ?stream) = Some (errorMessage thrown) \<and>
      result (last ?stream) = result job"
  proof
    assume h: "(registered = Some files \<or> (registered = None \<and> added = Returns files)) \<and>
      processStreamRequestAsync lc files fn expected = Inl thrown"
    then obtain current where cur: "error current = error job" "result current = result job"
      "last ?stream = last (finishStream lc current files fn expected now)"
      using processTorrentStreamAsync_finish [of registered files added job lc fn expected now]
      by blast
    have "last ?stream = failJob (current\<lparr>progress := 80\<rparr>) (errorMessage thrown) now"
      using cur(3) finishStream_thrown [of lc files fn expected thrown current now] h by simp
    then show "status (last ?stream) = Failed \<and>
      error (last ?stream) = Some (errorMessage thrown) \<and> result (last ?stream) = result job"
      using cur(2) by (simp add: failJob_def)
  qed
  have c7: "(registered = Some files \<or> (registered = None \<and> added = Returns files)) \<and>
      processStreamRequestAsync lc files fn expected = Inr (Some targetFile) \<longrightarrow>
      status (last ?stream) = Completed \<and>
      result (last ?stream) = Some (StreamInfo targetFile (file_length targetFile)) \<and>
      error (last ?stream) = error job"
  proof
    assume h: "(registered = Some files \<or> (registered = None \<and> added = Returns files)) \<and>
      processStreamRequestAsync lc files fn expected = Inr (Some targetFile)"
    then obtain current where cur: "error current = error job" "result current = result job"
      "last ?stream = last (finishStream lc current files fn expected now)"
      using processTorrentStreamAsync_finish [of registered files added job lc fn expected now]
      by blast
    have "last ?stream =
        current\<lparr>progress := 80, status := Completed, progress := 100, completedAt := Some now,
          result := Some (StreamInfo targetFile (file_length targetFile))\<rparr>"
      using cur(3) finishStream_file [of lc files fn expected targetFile current now] h by simp
    then show "status (last ?stream) = Completed \<and>
      result (last ?stream) = Some (StreamInfo targetFile (file_length targetFile)) \<and>
      error (last ?stream) = error job"
      using cur(1) by simp
  qed
  show ?thesis
    using processTorrentSearchAsync_lifecycle [of t0 an tt al found now]
      processTorrentStreamAsync_lifecycle [of t0 lc registered added fn expected now]
      c3 c4 c5 c6 c7 processStreamRequestAsync_has_file [of lc files fn expected]
    by (intro conjI)
qed

theorem asyncJob_lifecycle_witness:
  "scoreAndFilterFound [Some flacCandidate, None] ''Artist'' ''Song'' None
     = Throws nullEntryMessage \<and>
   map (\<lambda>j. (status j, progress j))
     (acceptFindBestTorrent 0 #
        processTorrentSearchAsync (acceptFindBestTorrent 0) ''Artist'' ''Song'' None
          [Some flacCandidate, None] 5)
     = [(Pending, 0), (Processing, 10), (Processing, 20), (Processing, 40), (Processing, 50),
        (Processing, 70), (Failed, 100)] \<and>
   status (last (processTorrentSearchAsync (acceptFindBestTorrent 0) ''Artist'' ''Song'' None
          [Some flacCandidate, None] 5)) = Failed \<and>
   error (last (processTorrentSearchAsync (acceptFindBestTorrent 0) ''Artist'' ''Song'' None
          [Some flacCandidate, None] 5)) = Some nullEntryMessage \<and>
   map (\<lambda>j. (status j, progress j))
     (acceptFindBestTorrent 0 #
        processTorrentSearchAsync (acceptFindBestTorrent 0) ''Artist'' ''Song'' None
          [Some flacCandidate] 5)
     = [(Pending, 0), (Processing, 10), (Processing, 20), (Processing, 40), (Processing, 50),
        (Processing, 70), (Processing, 90), (Completed, 100)] \<and>
   processStreamRequestAsync codeUnitCompare fiveFiles None (JNumber 3)
     = Inl (FileCountMismatch (JNumber 3) 5) \<and>
   errorMessage (FileCountMismatch (JNumber 3) 5) = ''File count mismatch: expected 3, found 5'' \<and>
   status (last (processTorrentStreamAsync codeUnitCompare (acceptStreamTorrent 0)
          (Some fiveFiles) (Returns fiveFiles) None (JNumber 3) 5)) = Failed \<and>
   error (last (processTorrentStreamAsync codeUnitCompare (acceptStreamTorrent 0)
          (Some fiveFiles) (Returns fiveFiles) None (JNumber 3) 5))
     = Some (errorMessage (FileCountMismatch (JNumber 3) 5)) \<and>
   lifecycle (acceptStreamTorrent 0 #
        processTorrentStreamAsync codeUnitCompare (acceptStreamTorrent 0)
          (Some fiveFiles) (Returns fiveFiles) None (JNumber 3) 5)"
proof -
  let ?search = "processTorrentSearchAsync (acceptFindBestTorrent 0) ''Artist'' ''Song'' None
          [Some flacCandidate, None] 5"
  let ?stream = "processTorrentStreamAsync codeUnitCompare (acceptStreamTorrent 0)
          (Some fiveFiles) (Returns fiveFiles) None (JNumber 3) 5"
  have th: "scoreAndFilterFound [Some flacCandidate, None] ''Artist'' ''Song'' None
              = Throws nullEntryMessage"
    by code_simp
  have a: "map (\<lambda>j. (status j, progress j)) (acceptFindBestTorrent 0 # ?search)
     = [(Pending, 0), (Processing, 10), (Processing, 20), (Processing, 40), (Processing, 50),
        (Processing, 70), (Failed, 100)]"
    by code_simp
  have b: "map (\<lambda>j. (status j, progress j))
     (acceptFindBestTorrent 0 #
        processTorrentSearchAsync (acceptFindBestTorrent 0) ''Artist'' ''Song'' None
          [Some flacCandidate] 5)
     = [(Pending, 0), (Processing, 10), (Processing, 20), (Processing, 40), (Processing, 50),
        (Processing, 70), (Processing, 90), (Completed, 100)]"
    by code_simp
  have h: "processStreamRequestAsync codeUnitCompare fiveFiles None (JNumber 3)
     = Inl (FileCountMismatch (JNumber 3) 5)"
    by code_simp
  have m: "errorMessage (FileCountMismatch (JNumber 3) 5)
             = ''File count mismatch: expected 3, found 5''"
    by code_simp
  note t = asyncJob_lifecycle [where found = "[Some flacCandidate, None]" and an = "''Artist''"
      and tt = "''Song''" and al = None and message = nullEntryMessage
      and job = "acceptFindBestTorrent 0" and now = 5 and ?t0.0 = 0
      and lc = codeUnitCompare and registered = "Some fiveFiles"
      and added = "Returns fiveFiles" and fn = None and expected = "JNumber 3"
      and files = fiveFiles and thrown = "FileCountMismatch (JNumber 3) 5"]
  from t [THEN conjunct2, THEN conjunct2, THEN conjunct1] th
  have s: "status (last ?search) = Failed \<and> error (last ?search) = Some nullEntryMessage \<and>
      result (last ?search) = result (acceptFindBestTorrent 0)"
    by (rule mp)
  have pre: "(Some fiveFiles = Some fiveFiles \<or>
       (Some fiveFiles = None \<and> Returns fiveFiles = Returns fiveFiles)) \<and>
      processStreamRequestAsync codeUnitCompare fiveFiles None (JNumber 3)
        = Inl (FileCountMismatch (JNumber 3) 5)"
    using h by simp
  note t' = asyncJob_lifecycle [where job = "acceptStreamTorrent 0" and now = 5 and ?t0.0 = 0
      and lc = codeUnitCompare and registered = "Some fiveFiles"
      and added = "Returns fiveFiles" and fn = None and expected = "JNumber 3"
      and files = fiveFiles and thrown = "FileCountMismatch (JNumber 3) 5"]
  from t' [THEN conjunct2, THEN conjunct2, THEN conjunct2, THEN conjunct2, THEN conjunct2,
      THEN conjunct1] pre
  have f: "status (last ?stream) = Failed \<and>
      error (last ?stream) = Some (errorMessage (FileCountMismatch (JNumber 3) 5)) \<and>
      result (last ?stream) = result (acceptStreamTorrent 0)"
    by (rule mp)
  have l: "lifecycle (acceptStreamTorrent 0 # ?stream)"
    using t' [THEN conjunct2, THEN conjunct1] .
  show ?thesis
    using th a s [THEN conjunct1] s [THEN conjunct2, THEN conjunct1] b h m
      f [THEN conjunct1] f [THEN conjunct2, THEN conjunct1] l
    by (intro conjI)
qed

section \<open>Properties of the Streaming Responder\<close>

lemma below_ten:
  "(d::nat) < 10 \<Longrightarrow>
   d = 0 \<or> d = 1 \<or> d = 2 \<or> d = 3 \<or> d = 4 \<or> d = 5 \<or> d = 6 \<or> d = 7 \<or> d = 8 \<or> d = 9"
  by arith

lemma isDigit_digitChar: "isDigit (digitChar d)"
proof -
  have "d mod 10 < 10" by simp
  from below_ten [OF this] show ?thesis
    by (elim disjE) (simp_all add: digitChar_def isDigit_def)
qed

lemma digitValue_digitChar: "d < 10 \<Longrightarrow> digitValue (digitChar d) = d"
proof -
  assume "d < 10"
  from below_ten [OF this] show ?thesis
    by (elim disjE) (simp_all add: digitChar_def digitValue_def)
qed

lemma showNat_digits: "\<forall>c\<in>set (showNat n). isDigit c"
  by (induction n rule: showNat.induct)
     (subst showNat.simps, auto simp: isDigit_digitChar)

lemma showNat_nonempty: "showNat n \<noteq> []"
  by (subst showNat.simps) simp

lemma parseDigits_snoc: "parseDigits (ds @ [c]) = 10 * parseDigits ds + digitValue c"
  by (simp add: parseDigits_def)

lemma parseDigits_showNat: "parseDigits (showNat n) = n"
proof (induction n rule: showNat.induct)
  case (1 n)
  show ?case
  proof (cases "n < 10")
    case True
    then show ?thesis
      by (subst showNat.simps) (simp add: parseDigits_def digitValue_digitChar)
  next
    case False
    then have "parseDigits (showNat n) = 10 * parseDigits (showNat (n div 10))
                 + digitValue (digitChar (n mod 10))"
      by (subst showNat.simps) (simp add: parseDigits_snoc)
    then show ?thesis using 1 False by (simp add: digitValue_digitChar)
  qed
qed

lemma isDigit_not_space: "isDigit c \<Longrightarrow> \<not> isSpace c"
  by (auto simp: isDigit_def isSpace_def)

lemma isDigit_not_sign: "isDigit c \<Longrightarrow> c \<noteq> CHR ''-'' \<and> c \<noteq> CHR ''+''"
  by (auto simp: isDigit_def)

lemma parseInt_showNat: "parseInt (showNat n) = Some (int n)"
proof -
  obtain c cs where s: "showNat n = c # cs"
    using showNat_nonempty [of n] by (cases "showNat n") auto
  have all: "\<forall>x\<in>set (c # cs). isDigit x" using showNat_digits [of n] s by simp
  then have c: "isDigit c" by simp
  have dw: "dropWhile isSpace (c # cs) = c # cs" using isDigit_not_space [OF c] by simp
  have tw: "takeWhile isDigit (c # cs) = c # cs" using all by (simp add: takeWhile_eq_all_conv)
  have "parseInt (c # cs) = Some (int (parseDigits (c # cs)))"
    unfolding parseInt_def dw Let_def using isDigit_not_sign [OF c] tw by simp
  then show ?thesis using s parseDigits_showNat [of n] by simp
qed

lemma showNumber_nat: "showNumber (Some (int n)) = showNat n"
  by (simp add: showNumber_def showInt_def)

lemma showNumber_Suc: "showNumber (Some (1 + int n)) = showNat (Suc n)"
  using showNumber_nat [of "Suc n"] by simp

lemma split_str_no_sep: "c \<notin> set xs \<Longrightarrow> split_str c xs = [xs]"
  by (induction xs) auto

lemma split_str_at_sep:
  "c \<notin> set xs \<Longrightarrow> split_str c (xs @ c # ys) = xs # split_str c ys"
  by (induction xs) auto

lemma dash_not_in_showNat: "CHR ''-'' \<notin> set (showNat n)"
  using showNat_digits [of n] isDigit_not_sign by blast

lemma split_range: "split_str CHR ''-'' (showNat s @ ''-'' @ showNat e) = [showNat s, showNat e]"
  using split_str_at_sep [OF dash_not_in_showNat, of s "showNat e"]
    split_str_no_sep [OF dash_not_in_showNat, of e] by simp

lemma split_open_range: "split_str CHR ''-'' (showNat s @ ''-'') = [showNat s, []]"
  using split_str_at_sep [OF dash_not_in_showNat, of s "[]"] by simp

lemma removeFirst_bytes: "removeFirst ''bytes='' (''bytes='' @ r) = r"
  by (simp add: startsWith_def)

lemma streamFile_partial:
  assumes "activeTorrents magnet = Some files"
    and "find (\<lambda>file. name file = fileName) files = Some file"
    and "r \<noteq> []"
    and "split_str CHR ''-'' (removeFirst ''bytes='' r) = [a, b]"
    and "parseInt a = Some (int s)"
    and "(b \<noteq> [] \<and> parseInt b = Some (int e)) \<or> (b = [] \<and> e = file_length file - 1)"
    and "s \<le> e" and "e < file_length file"
  shows "replyCode (streamFile activeTorrents magnet fileName (Some r)) = 206 \<and>
         replyHeader (streamFile activeTorrents magnet fileName (Some r)) ''Content-Range''
           = Some (''bytes '' @ showNat s @ ''-'' @ showNat e @ ''/''
                     @ showNat (file_length file)) \<and>
         replyHeader (streamFile activeTorrents magnet fileName (Some r)) ''Content-Length''
           = Some (showNat (e - s + 1)) \<and>
         replyBody (streamFile activeTorrents magnet fileName (Some r))
           = take (e - s + 1) (drop s (content file)) \<and>
         length (replyBody (streamFile activeTorrents magnet fileName (Some r))) = e - s + 1"
proof -
  let ?len = "Some (int (file_length file))"
  have en: "(case js_index [a, b] 1 of None \<Rightarrow> numSub ?len (Some 1)
             | Some p \<Rightarrow> if p \<noteq> [] then parseInt p else numSub ?len (Some 1))
            = Some (int e)"
    using assms(6,8) by (auto simp: js_index_def numSub_def)
  have chunk: "numAdd (numSub (Some (int e)) (Some (int s))) (Some 1) = Some (int (e - s + 1))"
    using assms(7) by (simp add: numAdd_def numSub_def)
  have stream: "createReadStream file (Some (Some (int s), Some (int e)))
                  = take (e - s + 1) (drop s (content file))"
  proof -
    have "min (int e) (int (file_length file) - 1) = int e" using assms(8) by simp
    moreover have "nat (int e + 1 - int s) = e - s + 1" using assms(7) by simp
    ultimately show ?thesis by (simp add: createReadStream_def Let_def)
  qed
  have len: "length (take (e - s + 1) (drop s (content file))) = e - s + 1"
    using assms(7,8) by (simp add: file_length_def)
  have eq: "streamFile activeTorrents magnet fileName (Some r) =
      Inr \<lparr>code = 206,
           headers = [''Content-Type'' \<mapsto> getMimeType fileName,
                      ''Content-Length'' \<mapsto> showNumber ?len,
                      ''Accept-Ranges'' \<mapsto> ''bytes'',
                      ''Cache-Control'' \<mapsto> ''no-cache'']
                     (''Content-Range'' \<mapsto>
                        ''bytes '' @ showNumber (Some (int s)) @ ''-'' @ showNumber (Some (int e))
                          @ ''/'' @ showNumber ?len,
                      ''Content-Length'' \<mapsto> showNumber (Some (int (e - s + 1)))),
           body = take (e - s + 1) (drop s (content file))\<rparr>"
    unfolding streamFile_def Let_def
    by (simp only: assms(1-5) option.case list.sel en chunk stream if_True not_False_eq_True)
  show ?thesis
    unfolding eq using len
    by (simp add: replyCode_def replyHeader_def replyBody_def showNumber_nat showNumber_Suc)
qed

lemma streamFile_full:
  assumes "activeTorrents magnet = Some files"
    and "find (\<lambda>file. name file = fileName) files = Some file"
  shows "replyCode (streamFile activeTorrents magnet fileName None) = 200 \<and>
         replyHeader (streamFile activeTorrents magnet fileName None) ''Content-Length''
           = Some (showNat (file_length file)) \<and>
         replyHeader (streamFile activeTorrents magnet fileName None) ''Content-Range'' = None \<and>
         replyBody (streamFile activeTorrents magnet fileName None) = content file \<and>
         length (replyBody (streamFile activeTorrents magnet fileName None)) = file_length file"
  using assms
  by (simp add: streamFile_def Let_def replyCode_def replyHeader_def replyBody_def
      createReadStream_def showNumber_nat file_length_def)

lemma byteRange_parts:
  "byteRange s e \<noteq> [] \<and>
   split_str CHR ''-'' (removeFirst ''bytes='' (byteRange s e))
     = [showNat s, (case e of None \<Rightarrow> [] | Some e' \<Rightarrow> showNat e')]"
proof (cases e)
  case None
  have "removeFirst ''bytes='' (''bytes='' @ (showNat s @ ''-'')) = showNat s @ ''-''"
    by (rule removeFirst_bytes)
  then show ?thesis using None split_open_range [of s] by (simp add: byteRange_def)
next
  case (Some e')
  have "removeFirst ''bytes='' (''bytes='' @ (showNat s @ ''-'' @ showNat e'))
          = showNat s @ ''-'' @ showNat e'"
    by (rule removeFirst_bytes)
  then show ?thesis using Some split_range [of s e'] by (simp add: byteRange_def)
qed

text \<open>
  C7, as the code has it. For a registered magnet identifier and an existing file of
  length \<open>L\<close>: a request with the range header \<^verbatim>\<open>bytes=s-e\<close> where \<open>s \<le> e \<le> L - 1\<close> is
  answered with status 206, the header \<^verbatim>\<open>Content-Range: bytes s-e/L\<close>, the content
  length \<open>e - s + 1\<close> and exactly the bytes \<open>s\<close> to \<open>e\<close> of the file; with \<^verbatim>\<open>bytes=s-\<close> and
  \<open>s \<le> L - 1\<close> the end is \<open>L - 1\<close>; without a range header the answer has status 200
  and the whole file.
\<close>

theorem streamFile_range:
  assumes "activeTorrents magnet = Some files"
    and "find (\<lambda>file. name file = fileName) files = Some file"
  shows
    "(s \<le> e \<and> e < file_length file \<longrightarrow>
        replyCode (streamFile activeTorrents magnet fileName (Some (byteRange s (Some e)))) = 206 \<and>
        replyHeader (streamFile activeTorrents magnet fileName (Some (byteRange s (Some e))))
          ''Content-Range'' = Some (contentRange s e (file_length file)) \<and>
        replyHeader (streamFile activeTorrents magnet fileName (Some (byteRange s (Some e))))
          ''Content-Length'' = Some (showNat (e - s + 1)) \<and>
        replyBody (streamFile activeTorrents magnet fileName (Some (byteRange s (Some e))))
          = take (e - s + 1) (drop s (content file)) \<and>
        length (replyBody (streamFile activeTorrents magnet fileName
                  (Some (byteRange s (Some e))))) = e - s + 1) \<and>
     (s < file_length file \<longrightarrow>
        replyCode (streamFile activeTorrents magnet fileName (Some (byteRange s None))) = 206 \<and>
        replyHeader (streamFile activeTorrents magnet fileName (Some (byteRange s None)))
          ''Content-Range'' = Some (contentRange s (file_length file - 1) (file_length file)) \<and>
        replyBody (streamFile activeTorrents magnet fileName (Some (byteRange s None)))
          = drop s (content file) \<and>
        length (replyBody (streamFile activeTorrents magnet fileName (Some (byteRange s None))))
          = file_length file - s) \<and>
     replyCode (streamFile activeTorrents magnet fileName None) = 200 \<and>
     replyHeader (streamFile activeTorrents magnet fileName None) ''Content-Length''
       = Some (showNat (file_length file)) \<and>
     replyBody (streamFile activeTorrents magnet fileName None) = content file \<and>
     length (replyBody (streamFile activeTorrents magnet fileName None)) = file_length file"
proof -
  have closed: "s \<le> e \<and> e < file_length file \<longrightarrow>
        replyCode (streamFile activeTorrents magnet fileName (Some (byteRange s (Some e)))) = 206 \<and>
        replyHeader (streamFile activeTorrents magnet fileName (Some (byteRange s (Some e))))
          ''Content-Range'' = Some (contentRange s e (file_length file)) \<and>
        replyHeader (streamFile activeTorrents magnet fileName (Some (byteRange s (Some e))))
          ''Content-Length'' = Some (showNat (e - s + 1)) \<and>
        replyBody (streamFile activeTorrents magnet fileName (Some (byteRange s (Some e))))
          = take (e - s + 1) (drop s (content file)) \<and>
        length (replyBody (streamFile activeTorrents magnet fileName
                  (Some (byteRange s (Some e))))) = e - s + 1"
  proof
    assume r: "s \<le> e \<and> e < file_length file"
    have p: "split_str CHR ''-'' (removeFirst ''bytes='' (byteRange s (Some e)))
               = [showNat s, showNat e]"
      using byteRange_parts [of s "Some e"] by simp
    have ne: "byteRange s (Some e) \<noteq> []" using byteRange_parts [of s "Some e"] by simp
    have b: "(showNat e \<noteq> [] \<and> parseInt (showNat e) = Some (int e)) \<or>
             (showNat e = [] \<and> e = file_length file - 1)"
      using showNat_nonempty parseInt_showNat by simp
    show "replyCode (streamFile activeTorrents magnet fileName (Some (byteRange s (Some e)))) = 206 \<and>
        replyHeader (streamFile activeTorrents magnet fileName (Some (byteRange s (Some e))))
          ''Content-Range'' = Some (contentRange s e (file_length file)) \<and>
        replyHeader (streamFile activeTorrents magnet fileName (Some (byteRange s (Some e))))
          ''Content-Length'' = Some (showNat (e - s + 1)) \<and>
        replyBody (streamFile activeTorrents magnet fileName (Some (byteRange s (Some e))))
          = take (e - s + 1) (drop s (content file)) \<and>
        length (replyBody (streamFile activeTorrents magnet fileName
                  (Some (byteRange s (Some e))))) = e - s + 1"
      unfolding contentRange_def
      using streamFile_partial [where activeTorrents = activeTorrents and magnet = magnet
          and s = s and e = e, OF assms ne p parseInt_showNat b] r by blast
  qed
  have opened: "s < file_length file \<longrightarrow>
        replyCode (streamFile activeTorrents magnet fileName (Some (byteRange s None))) = 206 \<and>
        replyHeader (streamFile activeTorrents magnet fileName (Some (byteRange s None)))
          ''Content-Range'' = Some (contentRange s (file_length file - 1) (file_length file)) \<and>
        replyBody (streamFile activeTorrents magnet fileName (Some (byteRange s None)))
          = drop s (content file) \<and>
        length (replyBody (streamFile activeTorrents magnet fileName (Some (byteRange s None))))
          = file_length file - s"
  proof
    assume r: "s < file_length file"
    let ?e = "file_length file - 1"
    have p: "split_str CHR ''-'' (removeFirst ''bytes='' (byteRange s None)) = [showNat s, []]"
      using byteRange_parts [of s None] by simp
    have ne: "byteRange s None \<noteq> []" using byteRange_parts [of s None] by simp
    have b: "([] \<noteq> [] \<and> parseInt [] = Some (int ?e)) \<or> ([] = [] \<and> ?e = file_length file - 1)"
      by simp
    have se: "s \<le> ?e" and el: "?e < file_length file" using r by simp_all
    have tk: "take (?e - s + 1) (drop s (content file)) = drop s (content file)"
      using r by (simp add: file_length_def)
    have ln: "?e - s + 1 = file_length file - s" using r by simp
    show "replyCode (streamFile activeTorrents magnet fileName (Some (byteRange s None))) = 206 \<and>
        replyHeader (streamFile activeTorrents magnet fileName (Some (byteRange s None)))
          ''Content-Range'' = Some (contentRange s (file_length file - 1) (file_length file)) \<and>
        replyBody (streamFile activeTorrents magnet fileName (Some (byteRange s None)))
          = drop s (content file) \<and>
        length (replyBody (streamFile activeTorrents magnet fileName (Some (byteRange s None))))
          = file_length file - s"
      unfolding contentRange_def
      using streamFile_partial [where activeTorrents = activeTorrents and magnet = magnet
          and s = s and e = ?e, OF assms ne p parseInt_showNat b se el] tk ln by metis
  qed
  note full = streamFile_full [where activeTorrents = activeTorrents and magnet = magnet, OF assms]
  have f1: "replyCode (streamFile activeTorrents magnet fileName None) = 200"
    using full by (elim conjE)
  have f2: "replyHeader (streamFile activeTorrents magnet fileName None) ''Content-Length''
       = Some (showNat (file_length file))"
    using full by (elim conjE)
  have f3: "replyBody (streamFile activeTorrents magnet fileName None) = content file"
    using full by (elim conjE)
  have f4: "length (replyBody (streamFile activeTorrents magnet fileName None)) = file_length file"
    using full by (elim conjE)
  show ?thesis using closed opened f1 f2 f3 f4 by (intro conjI)
qed

theorem streamFile_range_witness:
  "oneTorrent ''magnet:?xt=urn:btih:abc'' = Some [song] \<and>
   find (\<lambda>file. name file = ''song.mp3'') [song] = Some song \<and>
   file_length song = 1000 \<and>
   byteRange 0 (Some 99) = ''bytes=0-99'' \<and>
   contentRange 0 99 1000 = ''bytes 0-99/1000'' \<and>
   replyCode (streamFile oneTorrent ''magnet:?xt=urn:btih:abc'' ''song.mp3''
      (Some (byteRange 0 (Some 99)))) = 206 \<and>
   replyHeader (streamFile oneTorrent ''magnet:?xt=urn:btih:abc'' ''song.mp3''
      (Some (byteRange 0 (Some 99)))) ''Content-Range'' = Some (contentRange 0 99 1000) \<and>
   length (replyBody (streamFile oneTorrent ''magnet:?xt=urn:btih:abc'' ''song.mp3''
      (Some (byteRange 0 (Some 99))))) = 100 \<and>
   replyCode (streamFile oneTorrent ''magnet:?xt=urn:btih:abc'' ''song.mp3'' None) = 200 \<and>
   length (replyBody (streamFile oneTorrent ''magnet:?xt=urn:btih:abc'' ''song.mp3'' None)) = 1000"
proof -
  have r: "oneTorrent ''magnet:?xt=urn:btih:abc'' = Some [song]" by code_simp
  have f: "find (\<lambda>file. name file = ''song.mp3'') [song] = Some song" by code_simp
  have l: "file_length song = 1000" by code_simp
  have br: "byteRange 0 (Some 99) = ''bytes=0-99''" by code_simp
  have cr: "contentRange 0 99 1000 = ''bytes 0-99/1000''" by code_simp
  have ok: "(0::nat) \<le> 99 \<and> 99 < file_length song" using l by simp
  note t = streamFile_range [where activeTorrents = oneTorrent
      and magnet = "''magnet:?xt=urn:btih:abc''" and s = 0 and e = 99, OF r f]
  from t [THEN conjunct1] ok
  have c: "replyCode (streamFile oneTorrent ''magnet:?xt=urn:btih:abc'' ''song.mp3''
             (Some (byteRange 0 (Some 99)))) = 206 \<and>
      replyHeader (streamFile oneTorrent ''magnet:?xt=urn:btih:abc'' ''song.mp3''
             (Some (byteRange 0 (Some 99)))) ''Content-Range''
        = Some (contentRange 0 99 (file_length song)) \<and>
      replyHeader (streamFile oneTorrent ''magnet:?xt=urn:btih:abc'' ''song.mp3''
             (Some (byteRange 0 (Some 99)))) ''Content-Length'' = Some (showNat (99 - 0 + 1)) \<and>
      replyBody (streamFile oneTorrent ''magnet:?xt=urn:btih:abc'' ''song.mp3''
             (Some (byteRange 0 (Some 99)))) = take (99 - 0 + 1) (drop 0 (content song)) \<and>
      length (replyBody (streamFile oneTorrent ''magnet:?xt=urn:btih:abc'' ''song.mp3''
             (Some (byteRange 0 (Some 99))))) = 99 - 0 + 1"
    by (rule mp)
  note full = t [THEN conjunct2, THEN conjunct2, THEN conjunct1]
    t [THEN conjunct2, THEN conjunct2, THEN conjunct2, THEN conjunct2, THEN conjunct2]
  have c1: "replyCode (streamFile oneTorrent ''magnet:?xt=urn:btih:abc'' ''song.mp3''
      (Some (byteRange 0 (Some 99)))) = 206"
    using c by (elim conjE)
  have c2: "replyHeader (streamFile oneTorrent ''magnet:?xt=urn:btih:abc'' ''song.mp3''
      (Some (byteRange 0 (Some 99)))) ''Content-Range'' = Some (contentRange 0 99 1000)"
    using c unfolding l by (elim conjE)
  have c5: "length (replyBody (streamFile oneTorrent ''magnet:?xt=urn:btih:abc'' ''song.mp3''
      (Some (byteRange 0 (Some 99))))) = 100"
    using c [THEN conjunct2, THEN conjunct2, THEN conjunct2, THEN conjunct2] by simp
  have f1: "replyCode (streamFile oneTorrent ''magnet:?xt=urn:btih:abc'' ''song.mp3'' None) = 200"
    using full(1) .
  have f2: "length (replyBody (streamFile oneTorrent ''magnet:?xt=urn:btih:abc'' ''song.mp3''
      None)) = 1000"
    using full(2) unfolding l .
  show ?thesis
    using r f l br cr c1 c2 c5 f1 f2 by (intro conjI)
qed

text \<open>
  C7 as stated fails for a range that ends beyond the file: for \<^verbatim>\<open>bytes=0-1999\<close>
  on a file of 1000 bytes the answer announces \<^verbatim>\<open>bytes 0-1999/1000\<close> and a content
  length of 2000, and its body has the 1000 bytes of the file, not \<open>e - s + 1 = 2000\<close>.
\<close>

theorem streamFile_range_counterexample:
  "oneTorrent ''magnet:?xt=urn:btih:abc'' = Some [song] \<and>
   file_length song = 1000 \<and>
   replyCode (streamFile oneTorrent ''magnet:?xt=urn:btih:abc'' ''song.mp3''
      (Some ''bytes=0-1999'')) = 206 \<and>
   replyHeader (streamFile oneTorrent ''magnet:?xt=urn:btih:abc'' ''song.mp3''
      (Some ''bytes=0-1999'')) ''Content-Range'' = Some ''bytes 0-1999/1000'' \<and>
   replyHeader (streamFile oneTorrent ''magnet:?xt=urn:btih:abc'' ''song.mp3''
      (Some ''bytes=0-1999'')) ''Content-Length'' = Some ''2000'' \<and>
   length (replyBody (streamFile oneTorrent ''magnet:?xt=urn:btih:abc'' ''song.mp3''
      (Some ''bytes=0-1999''))) = 1000 \<and>
   length (replyBody (streamFile oneTorrent ''magnet:?xt=urn:btih:abc'' ''song.mp3''
      (Some ''bytes=0-1999''))) \<noteq> 1999 - 0 + 1"
  by code_simp

section \<open>Properties of the Torrent Handle Registry\<close>

lemma preloadRegister_registered:
  "activeTorrentIds (preloadRegister st m) m \<noteq> None"
  by (simp add: preloadRegister_def)

lemma preloadRegister_again:
  "activeTorrentIds st m \<noteq> None \<Longrightarrow> preloadRegister st m = st"
  by (simp add: preloadRegister_def)

text \<open>The pre-loader's registration adds a magnet link to the engine once, however often it runs.\<close>

lemma preloadRegister_single_add:
  "addCalls (foldl preloadRegister (preloadRegister st m) (replicate n m))
     = addCalls (preloadRegister st m)"
proof (induction n)
  case 0
  then show ?case by simp
next
  case (Suc n)
  have "preloadRegister (preloadRegister st m) m = preloadRegister st m"
    using preloadRegister_registered by (rule preloadRegister_again)
  then show ?case using Suc by simp
qed

text \<open>
  C1 on the code. Two requests of the synchronous \<^verbatim>\<open>POST /api/stream-torrent\<close> path for
  the same magnet link that is not registered yet, the second running while the first
  waits for its torrent: the engine's \<^verbatim>\<open>add\<close> is called twice and the requests end with
  two different torrents. Run one after the other, they share one torrent and \<^verbatim>\<open>add\<close> is
  called once.
\<close>

theorem streamTorrent_concurrent_double_add:
  "addCalls (fst (run [0, 1, 0, 1]
      (initialEngine, [Arrived ''magnet:?xt=urn:btih:abc'', Arrived ''magnet:?xt=urn:btih:abc''])))
     = [''magnet:?xt=urn:btih:abc'', ''magnet:?xt=urn:btih:abc''] \<and>
   snd (run [0, 1, 0, 1]
      (initialEngine, [Arrived ''magnet:?xt=urn:btih:abc'', Arrived ''magnet:?xt=urn:btih:abc'']))
     = [Holding 0, Holding 1] \<and>
   addCalls (fst (run [0, 0, 1]
      (initialEngine, [Arrived ''magnet:?xt=urn:btih:abc'', Arrived ''magnet:?xt=urn:btih:abc''])))
     = [''magnet:?xt=urn:btih:abc''] \<and>
   snd (run [0, 0, 1]
      (initialEngine, [Arrived ''magnet:?xt=urn:btih:abc'', Arrived ''magnet:?xt=urn:btih:abc'']))
     = [Holding 0, Holding 0]"
  by code_simp

section \<open>Properties of the metadata rate limiter\<close>

text \<open>Two calls through the rate limiter, one after the other, are a full interval apart.\<close>

lemma rateLimited_spacing:
  assumes "0 \<le> latency"
  shows "gaps (requests (rateLimitedMusicBrainzCall latency'
            (rateLimitedMusicBrainzCall latency (st\<lparr>requests := []\<rparr>)))) = [g]
         \<Longrightarrow> rateLimit \<le> g"
  using assms by (auto simp: rateLimitedMusicBrainzCall_def Let_def split: if_splits)

text \<open>
  C9 on the code. The handlers of \<^verbatim>\<open>/api/artist-albums\<close> and \<^verbatim>\<open>/api/artist-details\<close> call
  the metadata service directly: with answers after 100 ms, one artist-details request
  sends its six requests 100 ms and 300 ms apart, and two artist-albums requests send
  theirs 100 ms apart, where the rate limiter keeps 1000 ms.
\<close>

theorem artistDetails_bypasses_rate_limiter:
  "requests (artistDetails 100 startOfDay)
     = [1000000, 1000100, 1000400, 1000700, 1001000, 1001300] \<and>
   gaps (requests (artistDetails 100 startOfDay)) = [100, 300, 300, 300, 300] \<and>
   gaps (requests (artistAlbums 100 (artistAlbums 100 startOfDay))) = [100] \<and>
   gaps (requests (rateLimitedMusicBrainzCall 100 (rateLimitedMusicBrainzCall 100 startOfDay)))
     = [1000]"
  by code_simp

end
